theory Spec2Isabelle
  imports Complex_Main "HOL-Library.AList"
begin

section \<open>Python values\<close>

text \<open>
  The three services keep their data in Python dictionaries with string keys
  (\<^verbatim>\<open>signal_data\<close>, the position dictionaries of the monitor, the order
  request).  A dictionary is an association list in insertion order: writing an
  existing key replaces its value in place, writing a new key appends it, as
  \<^verbatim>\<open>d[k] = v\<close> does.  Python floats are modelled as real numbers and
  \<^verbatim>\<open>datetime\<close> values as real seconds.
\<close>

datatype pyval =
    PNone
  | PBool bool
  | PInt int
  | PFloat real
  | PStr string
  | PTime real
  | PList "pyval list"
  | PDict "(string \<times> pyval) list"

type_synonym pydict = "(string \<times> pyval) list"

datatype pyerr =
    KeyError string
  | TypeError
  | ValueError string
  | NameError string
  | AttributeError
  | IndexError
  | JSONDecodeError

text \<open>\<^verbatim>\<open>d.get(k)\<close>, \<^verbatim>\<open>k in d\<close>, \<^verbatim>\<open>d[k] = v\<close> and \<^verbatim>\<open>d.pop(k)\<close>.\<close>

definition dget :: "(string \<times> 'v) list \<Rightarrow> string \<Rightarrow> 'v option" where
  "dget d k = map_of d k"

definition dhas :: "(string \<times> 'v) list \<Rightarrow> string \<Rightarrow> bool" where
  "dhas d k = (map_of d k \<noteq> None)"

fun dset :: "(string \<times> 'v) list \<Rightarrow> string \<Rightarrow> 'v \<Rightarrow> (string \<times> 'v) list" where
  "dset [] k v = [(k, v)]"
| "dset ((k', v') # d) k v = (if k' = k then (k, v) # d else (k', v') # dset d k v)"

fun dpop :: "(string \<times> 'v) list \<Rightarrow> string \<Rightarrow> (string \<times> 'v) list" where
  "dpop [] k = []"
| "dpop ((k', v') # d) k = (if k' = k then dpop d k else (k', v') # dpop d k)"

text \<open>\<^verbatim>\<open>d.get(k, default)\<close>.\<close>

definition dget_default :: "pydict \<Rightarrow> string \<Rightarrow> pyval \<Rightarrow> pyval" where
  "dget_default d k dflt = (case dget d k of None \<Rightarrow> dflt | Some v \<Rightarrow> v)"

text \<open>Truth value testing: what \<^verbatim>\<open>if x:\<close> and \<^verbatim>\<open>not x\<close> look at.\<close>

fun truthy :: "pyval \<Rightarrow> bool" where
  "truthy PNone = False"
| "truthy (PBool b) = b"
| "truthy (PInt i) = (i \<noteq> 0)"
| "truthy (PFloat r) = (r \<noteq> 0)"
| "truthy (PStr s) = (s \<noteq> [])"
| "truthy (PTime t) = True"
| "truthy (PList xs) = (xs \<noteq> [])"
| "truthy (PDict d) = (d \<noteq> [])"

text \<open>\<^verbatim>\<open>d.get(k)\<close> used as a condition: a missing key gives \<^verbatim>\<open>None\<close>.\<close>

definition dtruthy :: "pydict \<Rightarrow> string \<Rightarrow> bool" where
  "dtruthy d k = (case dget d k of None \<Rightarrow> False | Some v \<Rightarrow> truthy v)"

section \<open>Position Monitor (services/position\_monitor\_service.py)\<close>

text \<open>
  \<^verbatim>\<open>PositionMonitor\<close> holds \<^verbatim>\<open>active_positions\<close>, a dictionary from
  order id to position dictionary, and \<^verbatim>\<open>position_history\<close>, a list of
  closed positions.  Every method takes the monitor and returns the new one
  beside its result.  A method that can raise returns \<open>Inl\<close> of the
  exception; every raise of the mutators happens before the first write, so
  the monitor that comes back with an exception is the one that went in.

  The mutators that persist to the sandbox ledger do so after the in-memory
  write, inside \<^verbatim>\<open>try: ... except Exception\<close>, reading the position only
  through \<^verbatim>\<open>.get\<close>; the ledger is a database outside the monitor and is
  not part of this state.
\<close>

record monitor =
  active_positions :: "(string \<times> pydict) list"
  position_history :: "pydict list"

text \<open>\<^verbatim>\<open>max(targets)\<close> and \<^verbatim>\<open>min(targets)\<close> on a non-empty list.\<close>

fun list_max :: "real list \<Rightarrow> real" where
  "list_max [] = 0"
| "list_max [x] = x"
| "list_max (x # y # ys) = max x (list_max (y # ys))"

fun list_min :: "real list \<Rightarrow> real" where
  "list_min [] = 0"
| "list_min [x] = x"
| "list_min (x # y # ys) = min x (list_min (y # ys))"

text \<open>
  \<^verbatim>\<open>add_position\<close> (lines 169-238).  \<open>now\<close> is the value of
  \<^verbatim>\<open>datetime.now()\<close>.  The dictionary literal is built key by key in the
  order of the source; the literal repeats \<^verbatim>\<open>'final_target'\<close> and
  \<^verbatim>\<open>'highest_price'\<close> with the same values.
\<close>

definition new_position ::
  "real \<Rightarrow> string \<Rightarrow> string \<Rightarrow> string \<Rightarrow> string \<Rightarrow> int \<Rightarrow> real \<Rightarrow> real \<Rightarrow> real list
     \<Rightarrow> pydict \<Rightarrow> string \<Rightarrow> string \<Rightarrow> pydict" where
  "new_position now order_id symbol exchange action quantity entry_price stop_loss targets
       signal_data username product =
     (let final_target = (if targets \<noteq> [] then PFloat (list_max targets) else PNone) in
      [(''order_id'', PStr order_id),
       (''symbol'', PStr symbol),
       (''exchange'', PStr exchange),
       (''action'', PStr action),
       (''quantity'', PInt quantity),
       (''entry_price'', PFloat entry_price),
       (''original_sl'', PFloat stop_loss),
       (''current_sl'', PFloat stop_loss),
       (''targets'', PList (map PFloat targets)),
       (''final_target'', final_target),
       (''highest_price'', PFloat entry_price),
       (''status'', PStr ''pending_open''),
       (''created_at'', PTime now),
       (''signal_data'', PDict signal_data),
       (''username'', PStr username),
       (''trailing_enabled'', PBool True),
       (''sl_order_id'', PNone),
       (''product'', PStr product),
       (''original_quantity'', PInt quantity),
       (''remaining_quantity'', PInt quantity),
       (''t1_hit'', PBool False),
       (''t2_hit'', PBool False),
       (''t3_hit'', PBool False),
       (''t1_exit_done'', PBool False),
       (''t3_plus_10_start_time'', PNone)])"

definition add_position ::
  "real \<Rightarrow> string \<Rightarrow> string \<Rightarrow> string \<Rightarrow> string \<Rightarrow> int \<Rightarrow> real \<Rightarrow> real \<Rightarrow> real list
     \<Rightarrow> pydict \<Rightarrow> string \<Rightarrow> string \<Rightarrow> monitor \<Rightarrow> monitor" where
  "add_position now order_id symbol exchange action quantity entry_price stop_loss targets
       signal_data username product m =
     m\<lparr>active_positions :=
         dset (active_positions m) order_id
           (new_position now order_id symbol exchange action quantity entry_price stop_loss
              targets signal_data username product)\<rparr>"

text \<open>
  The mutators (lines 240-513).  Each is
  \<^verbatim>\<open>if order_id in self.active_positions: ...; return True\<close> followed by
  \<^verbatim>\<open>return False\<close>.  \<open>set_key\<close> is
  \<^verbatim>\<open>self.active_positions[order_id][key] = value\<close>.
\<close>

definition set_key :: "string \<Rightarrow> string \<Rightarrow> pyval \<Rightarrow> monitor \<Rightarrow> monitor" where
  "set_key order_id key v m =
     (case dget (active_positions m) order_id of
        None \<Rightarrow> m
      | Some position \<Rightarrow>
          m\<lparr>active_positions := dset (active_positions m) order_id (dset position key v)\<rparr>)"

definition update_sl ::
  "string \<Rightarrow> real \<Rightarrow> string option \<Rightarrow> monitor \<Rightarrow> (pyerr + bool) \<times> monitor" where
  "update_sl order_id new_sl sl_order_id m =
     (case dget (active_positions m) order_id of
        None \<Rightarrow> (Inr False, m)
      | Some position \<Rightarrow>
          (case dget position ''current_sl'' of
             None \<Rightarrow> (Inl (KeyError ''current_sl''), m)
           | Some old_sl \<Rightarrow>
               (let m1 = set_key order_id ''current_sl'' (PFloat new_sl) m;
                    m2 = (case sl_order_id of
                            None \<Rightarrow> m1
                          | Some s \<Rightarrow> if s \<noteq> [] then set_key order_id ''sl_order_id'' (PStr s) m1
                                      else m1)
                in (Inr True, m2))))"

definition update_target :: "string \<Rightarrow> real \<Rightarrow> monitor \<Rightarrow> (pyerr + bool) \<times> monitor" where
  "update_target order_id new_target m =
     (if dhas (active_positions m) order_id
      then (Inr True, set_key order_id ''final_target'' (PFloat new_target) m)
      else (Inr False, m))"

definition update_targets :: "string \<Rightarrow> real list \<Rightarrow> monitor \<Rightarrow> (pyerr + bool) \<times> monitor" where
  "update_targets order_id targets m =
     (if dhas (active_positions m) order_id
      then (Inr True, set_key order_id ''targets'' (PList (map PFloat targets)) m)
      else (Inr False, m))"

definition update_t3_timer :: "string \<Rightarrow> real \<Rightarrow> monitor \<Rightarrow> (pyerr + bool) \<times> monitor" where
  "update_t3_timer order_id start_time m =
     (if dhas (active_positions m) order_id
      then (Inr True, set_key order_id ''t3_plus_10_start_time'' (PTime start_time) m)
      else (Inr False, m))"

definition update_status :: "string \<Rightarrow> string \<Rightarrow> monitor \<Rightarrow> (pyerr + bool) \<times> monitor" where
  "update_status order_id new_status m =
     (if dhas (active_positions m) order_id
      then (Inr True, set_key order_id ''status'' (PStr new_status) m)
      else (Inr False, m))"

definition update_sl_order_id :: "string \<Rightarrow> string \<Rightarrow> monitor \<Rightarrow> (pyerr + bool) \<times> monitor" where
  "update_sl_order_id order_id sl_order_id m =
     (if dhas (active_positions m) order_id
      then (Inr True, set_key order_id ''sl_order_id'' (PStr sl_order_id) m)
      else (Inr False, m))"

text \<open>
  \<^verbatim>\<open>current_price > position['highest_price']\<close>: a missing key raises
  \<^verbatim>\<open>KeyError\<close>, a stored value that is not a number raises
  \<^verbatim>\<open>TypeError\<close>.  \<^verbatim>\<open>return True\<close> is inside the inner \<^verbatim>\<open>if\<close>
  (line 385).
\<close>

fun num_of :: "pyval \<Rightarrow> real option" where
  "num_of (PBool b) = Some (if b then 1 else 0)"
| "num_of (PInt i) = Some (of_int i)"
| "num_of (PFloat r) = Some r"
| "num_of _ = None"

definition update_highest_price :: "string \<Rightarrow> real \<Rightarrow> monitor \<Rightarrow> (pyerr + bool) \<times> monitor" where
  "update_highest_price order_id current_price m =
     (case dget (active_positions m) order_id of
        None \<Rightarrow> (Inr False, m)
      | Some position \<Rightarrow>
          (case dget position ''highest_price'' of
             None \<Rightarrow> (Inl (KeyError ''highest_price''), m)
           | Some h \<Rightarrow>
               (case num_of h of
                  None \<Rightarrow> (Inl TypeError, m)
                | Some hp \<Rightarrow>
                    if current_price > hp
                    then (Inr True, set_key order_id ''highest_price'' (PFloat current_price) m)
                    else (Inr False, m))))"

definition update_quantity :: "string \<Rightarrow> int \<Rightarrow> monitor \<Rightarrow> (pyerr + bool) \<times> monitor" where
  "update_quantity order_id new_quantity m =
     (if dhas (active_positions m) order_id
      then (Inr True, set_key order_id ''quantity'' (PInt new_quantity) m)
      else (Inr False, m))"

definition mark_t1_exit_done :: "string \<Rightarrow> monitor \<Rightarrow> (pyerr + bool) \<times> monitor" where
  "mark_t1_exit_done order_id m =
     (if dhas (active_positions m) order_id
      then (Inr True, set_key order_id ''t1_exit_done'' (PBool True) m)
      else (Inr False, m))"

definition update_remaining_quantity ::
  "string \<Rightarrow> int \<Rightarrow> monitor \<Rightarrow> (pyerr + bool) \<times> monitor" where
  "update_remaining_quantity order_id new_quantity m =
     (if dhas (active_positions m) order_id
      then (Inr True, set_key order_id ''remaining_quantity'' (PInt new_quantity) m)
      else (Inr False, m))"

definition set_target_hit_flag ::
  "string \<Rightarrow> string \<Rightarrow> bool \<Rightarrow> monitor \<Rightarrow> (pyerr + bool) \<times> monitor" where
  "set_target_hit_flag order_id flag_name v m =
     (if dhas (active_positions m) order_id
      then (Inr True, set_key order_id flag_name (PBool v) m)
      else (Inr False, m))"

definition disable_trailing :: "string \<Rightarrow> monitor \<Rightarrow> (pyerr + bool) \<times> monitor" where
  "disable_trailing order_id m =
     (if dhas (active_positions m) order_id
      then (Inr True, set_key order_id ''trailing_enabled'' (PBool False) m)
      else (Inr False, m))"

definition enable_trailing :: "string \<Rightarrow> monitor \<Rightarrow> (pyerr + bool) \<times> monitor" where
  "enable_trailing order_id m =
     (if dhas (active_positions m) order_id
      then (Inr True, set_key order_id ''trailing_enabled'' (PBool True) m)
      else (Inr False, m))"

text \<open>
  \<^verbatim>\<open>remove_position\<close> (lines 481-497): pop the position, stamp it, append
  it to the history, and drop the oldest entry when the history is longer
  than 100.  The result is the stamped position, or \<^verbatim>\<open>None\<close>.
\<close>

definition remove_position ::
  "real \<Rightarrow> string \<Rightarrow> string \<Rightarrow> monitor \<Rightarrow> pydict option \<times> monitor" where
  "remove_position now order_id reason m =
     (case dget (active_positions m) order_id of
        None \<Rightarrow> (None, m)
      | Some p \<Rightarrow>
          (let position = dset (dset p ''status'' (PStr reason)) ''closed_at'' (PTime now);
               h = position_history m @ [position];
               h' = (if length h > 100 then tl h else h)
           in (Some position,
               m\<lparr>active_positions := dpop (active_positions m) order_id,
                 position_history := h'\<rparr>)))"

text \<open>
  A call of the monitor's interface, and the monitor after it.  A call that
  raises leaves the monitor as it was.
\<close>

datatype monitor_call =
    Add_position real string string string string int real real "real list" pydict string string
  | Update_sl string real "string option"
  | Update_target string real
  | Update_targets string "real list"
  | Update_t3_timer string real
  | Update_status string string
  | Update_sl_order_id string string
  | Update_highest_price string real
  | Update_quantity string int
  | Mark_t1_exit_done string
  | Update_remaining_quantity string int
  | Set_target_hit_flag string string bool
  | Remove_position real string string
  | Disable_trailing string
  | Enable_trailing string

fun call_monitor :: "monitor_call \<Rightarrow> monitor \<Rightarrow> monitor" where
  "call_monitor (Add_position now oid sy ex act q ep sl ts sd u pr) m =
     add_position now oid sy ex act q ep sl ts sd u pr m"
| "call_monitor (Update_sl oid v so) m = snd (update_sl oid v so m)"
| "call_monitor (Update_target oid v) m = snd (update_target oid v m)"
| "call_monitor (Update_targets oid ts) m = snd (update_targets oid ts m)"
| "call_monitor (Update_t3_timer oid t) m = snd (update_t3_timer oid t m)"
| "call_monitor (Update_status oid s) m = snd (update_status oid s m)"
| "call_monitor (Update_sl_order_id oid s) m = snd (update_sl_order_id oid s m)"
| "call_monitor (Update_highest_price oid v) m = snd (update_highest_price oid v m)"
| "call_monitor (Update_quantity oid q) m = snd (update_quantity oid q m)"
| "call_monitor (Mark_t1_exit_done oid) m = snd (mark_t1_exit_done oid m)"
| "call_monitor (Update_remaining_quantity oid q) m = snd (update_remaining_quantity oid q m)"
| "call_monitor (Set_target_hit_flag oid f v) m = snd (set_target_hit_flag oid f v m)"
| "call_monitor (Remove_position now oid r) m = snd (remove_position now oid r m)"
| "call_monitor (Disable_trailing oid) m = snd (disable_trailing oid m)"
| "call_monitor (Enable_trailing oid) m = snd (enable_trailing oid m)"

fun run_calls :: "monitor_call list \<Rightarrow> monitor \<Rightarrow> monitor" where
  "run_calls [] m = m"
| "run_calls (c # cs) m = run_calls cs (call_monitor c m)"

text \<open>
  What every position built by \<^verbatim>\<open>add_position\<close> or by the startup restore
  has, and what no mutator takes away: a \<^verbatim>\<open>'current_sl'\<close> entry and a
  numeric \<^verbatim>\<open>'highest_price'\<close>.
\<close>

definition position_ok :: "pydict \<Rightarrow> bool" where
  "position_ok p =
     (dhas p ''current_sl'' \<and>
      (case dget p ''highest_price'' of None \<Rightarrow> False | Some h \<Rightarrow> num_of h \<noteq> None))"

definition monitor_ok :: "monitor \<Rightarrow> bool" where
  "monitor_ok m = list_all (\<lambda>(k, p). position_ok p) (active_positions m)"

text \<open>
  A monitor holding one position, as \<^verbatim>\<open>tests/test_order_sync.py\<close> sets it
  up: a long position entered at 100 with stop-loss 90 and target 120.
\<close>

definition empty_monitor :: monitor where
  "empty_monitor = \<lparr>active_positions = [], position_history = []\<rparr>"

definition example_monitor :: monitor where
  "example_monitor =
     add_position 0 ''ENTRY_ORDER_123'' ''NIFTY23DEC21000CE'' ''NFO'' ''BUY'' 50 100 90 [120]
       [(''product'', PStr ''MIS'')] ''aravind'' ''MIS'' empty_monitor"

section \<open>Numbers and strings\<close>

text \<open>
  \<^verbatim>\<open>float(x)\<close>.  On a string it reads an optional sign and a decimal
  numeral (digits, optionally a point and more digits, at least one digit in
  all) between optional white space, which covers every number the classifier
  extracts; the other spellings Python accepts (an exponent, \<^verbatim>\<open>inf\<close>,
  \<^verbatim>\<open>nan\<close>, underscores) are outside the modelled inputs and read as a
  \<^verbatim>\<open>ValueError\<close>.
\<close>

definition is_digit :: "char \<Rightarrow> bool" where
  "is_digit c = (c \<in> set ''0123456789'')"

definition is_space :: "char \<Rightarrow> bool" where
  "is_space c = (c \<in> set [CHR '' '', CHR 0x09, CHR 0x0A, CHR 0x0B, CHR 0x0C, CHR 0x0D])"

text \<open>The value of a digit character.\<close>

definition digit_values :: "(char \<times> nat) list" where
  "digit_values = zip ''0123456789'' [0, 1, 2, 3, 4, 5, 6, 7, 8, 9]"

fun digit_val :: "char \<Rightarrow> nat" where
  "digit_val c = (case map_of digit_values c of None \<Rightarrow> 0 | Some d \<Rightarrow> d)"

text \<open>The number a row of digits denotes, in the type where it is used.\<close>

fun digits_val :: "'a::semiring_1 \<Rightarrow> string \<Rightarrow> 'a" where
  "digits_val acc [] = acc"
| "digits_val acc (c # cs) = digits_val (10 * acc + of_nat (digit_val c)) cs"

definition strip :: "string \<Rightarrow> string" where
  "strip s = rev (dropWhile is_space (rev (dropWhile is_space s)))"

definition parse_unsigned :: "string \<Rightarrow> real option" where
  "parse_unsigned s =
     (let ip = takeWhile is_digit s; rest = dropWhile is_digit s in
      case rest of
        [] \<Rightarrow> if ip = [] then None else Some (digits_val 0 ip)
      | c # fp \<Rightarrow>
          if c = CHR ''.'' \<and> list_all is_digit fp \<and> (ip \<noteq> [] \<or> fp \<noteq> [])
          then Some (digits_val 0 ip + digits_val 0 fp / 10 ^ length fp)
          else None)"

definition parse_float :: "string \<Rightarrow> real option" where
  "parse_float s =
     (case strip s of
        [] \<Rightarrow> None
      | c # cs \<Rightarrow>
          if c = CHR ''-'' then map_option uminus (parse_unsigned cs)
          else if c = CHR ''+'' then parse_unsigned cs
          else parse_unsigned (c # cs))"

fun py_float :: "pyval \<Rightarrow> pyerr + real" where
  "py_float (PBool b) = Inr (if b then 1 else 0)"
| "py_float (PInt i) = Inr (of_int i)"
| "py_float (PFloat r) = Inr r"
| "py_float (PStr s) = (case parse_float s of None \<Rightarrow> Inl (ValueError s) | Some r \<Rightarrow> Inr r)"
| "py_float _ = Inl TypeError"

text \<open>\<^verbatim>\<open>str(n)\<close> of an integer.\<close>

fun digit_char :: "nat \<Rightarrow> char" where
  "digit_char n = ''0123456789'' ! (n mod 10)"

fun str_nat :: "nat \<Rightarrow> string" where
  "str_nat n = (if n < 10 then [digit_char n] else str_nat (n div 10) @ [digit_char n])"

declare str_nat.simps [simp del]

definition str_int :: "int \<Rightarrow> string" where
  "str_int i = (if i < 0 then CHR ''-'' # str_nat (nat (- i)) else str_nat (nat i))"

text \<open>\<^verbatim>\<open>s.split(',')\<close>.\<close>

fun split_on :: "char \<Rightarrow> string \<Rightarrow> string list" where
  "split_on c [] = [[]]"
| "split_on c (x # xs) =
     (case split_on c xs of
        [] \<Rightarrow> [[x]]
      | w # ws \<Rightarrow> if x = c then [] # w # ws else (x # w) # ws)"

text \<open>
  \<^verbatim>\<open>[float(t) for t in xs]\<close>: the first element that does not convert
  raises.
\<close>

fun float_all :: "pyval list \<Rightarrow> pyerr + real list" where
  "float_all [] = Inr []"
| "float_all (x # xs) =
     (case py_float x of
        Inl e \<Rightarrow> Inl e
      | Inr r \<Rightarrow> (case float_all xs of Inl e \<Rightarrow> Inl e | Inr rs \<Rightarrow> Inr (r # rs)))"

section \<open>Startup restore (position\_monitor\_service.py, lines 31-167)\<close>

text \<open>
  The sandbox ledger is the module \<^verbatim>\<open>database.sandbox_db\<close>, which is not
  among the sources; its two tables are taken as lists of rows with the
  columns \<^verbatim>\<open>restore_from_sandbox\<close> reads.  A nullable numeric or time
  column is an option.  The \<^verbatim>\<open>signal_data\<close> column is empty, or text
  that \<^verbatim>\<open>json.loads\<close> rejects, or text that it turns into a value.
\<close>

datatype json_column = NoJson | BadJson | Json pyval

record sandbox_position =
  sp_id :: int
  sp_user_id :: string
  sp_symbol :: string
  sp_exchange :: string
  sp_product :: string
  sp_quantity :: int
  sp_average_price :: "real option"
  sp_created_at :: "real option"
  sp_signal_data :: json_column

record sandbox_order =
  so_orderid :: string
  so_user_id :: string
  so_symbol :: string
  so_exchange :: string
  so_product :: string
  so_action :: string
  so_order_status :: string
  so_price_type :: string
  so_trigger_price :: "real option"
  so_order_timestamp :: real

text \<open>\<^verbatim>\<open>.date()\<close> of a time in seconds: the day it falls in.\<close>

definition date_of :: "real \<Rightarrow> int" where
  "date_of t = \<lfloor>t / 86400\<rfloor>"

text \<open>
  \<^verbatim>\<open>.order_by(order_timestamp.desc()).first()\<close>: the row with the
  greatest timestamp, the earliest such row of the table on a tie.
\<close>

fun latest :: "sandbox_order list \<Rightarrow> sandbox_order option" where
  "latest [] = None"
| "latest (x # xs) =
     (case latest xs of
        None \<Rightarrow> Some x
      | Some y \<Rightarrow> if so_order_timestamp y > so_order_timestamp x then Some y else Some x)"

definition sl_orders_for ::
  "sandbox_position \<Rightarrow> string \<Rightarrow> sandbox_order list \<Rightarrow> sandbox_order list" where
  "sl_orders_for pos exit_action orders =
     filter (\<lambda>r. so_user_id r = sp_user_id pos \<and> so_symbol r = sp_symbol pos \<and>
                 so_exchange r = sp_exchange pos \<and> so_product r = sp_product pos \<and>
                 so_action r = exit_action \<and> so_price_type r \<in> set [''SL'', ''SL-M'']) orders"

definition active_sl_order_of ::
  "sandbox_position \<Rightarrow> string \<Rightarrow> sandbox_order list \<Rightarrow> sandbox_order option" where
  "active_sl_order_of pos exit_action orders =
     latest (filter (\<lambda>r. so_order_status r = ''open'') (sl_orders_for pos exit_action orders))"

definition historical_sl_of ::
  "sandbox_position \<Rightarrow> string \<Rightarrow> sandbox_order list \<Rightarrow> sandbox_order option" where
  "historical_sl_of pos exit_action orders = latest (sl_orders_for pos exit_action orders)"

text \<open>\<^verbatim>\<open>if order.trigger_price:\<close> a trigger price that is set and not zero.\<close>

definition trigger_of :: "sandbox_order \<Rightarrow> real option" where
  "trigger_of r = (case so_trigger_price r of None \<Rightarrow> None
                   | Some t \<Rightarrow> if t \<noteq> 0 then Some t else None)"

text \<open>Lines 68-118: the stop-loss of a restored position and the linked order id.\<close>

definition restore_sl ::
  "sandbox_order list \<Rightarrow> sandbox_position \<Rightarrow> pydict \<Rightarrow> pyerr + (real \<times> string option)" where
  "restore_sl orders pos signal_data =
     (case py_float (dget_default signal_data ''sl'' (PInt 0)) of
        Inl e \<Rightarrow> Inl e
      | Inr sl0 \<Rightarrow>
     (case (if sl0 = 0 then py_float (dget_default signal_data ''stop_loss'' (PInt 0))
            else Inr sl0) of
        Inl e \<Rightarrow> Inl e
      | Inr sl1 \<Rightarrow>
          (let action = (if sp_quantity pos > 0 then ''BUY'' else ''SELL'');
               exit_action = (if action = ''BUY'' then ''SELL'' else ''BUY'');
               active_sl_order = active_sl_order_of pos exit_action orders;
               sl2 = (case active_sl_order of
                        Some a \<Rightarrow> sl1
                      | None \<Rightarrow>
                          (case historical_sl_of pos exit_action orders of
                             None \<Rightarrow> sl1
                           | Some h \<Rightarrow> (case trigger_of h of None \<Rightarrow> sl1 | Some t \<Rightarrow> t)));
               (sl3, sl_order_id) =
                  (case active_sl_order of
                     None \<Rightarrow> (sl2, None)
                   | Some a \<Rightarrow> (case trigger_of a of
                                  None \<Rightarrow> (sl2, None)
                                | Some t \<Rightarrow> (t, Some (so_orderid a))));
               sl4 = (case sp_average_price pos of
                        None \<Rightarrow> sl3
                      | Some avg \<Rightarrow>
                          if sl3 = 0 \<and> avg \<noteq> 0
                          then (if sp_quantity pos > 0 then avg * 0.9 else avg * 1.1)
                          else sl3)
           in Inr (sl4, sl_order_id))))"

text \<open>
  Lines 120-132: the recovered targets.  The value stays whatever
  \<^verbatim>\<open>signal_data\<close> holds when it is neither a string nor a list.
\<close>

definition restore_targets :: "pydict \<Rightarrow> pyerr + pyval" where
  "restore_targets signal_data =
     (let targets0 = dget_default signal_data ''targets'' (PList []) in
      case (if \<not> truthy targets0
            then (let a = dget_default signal_data ''target'' PNone;
                      single_target = (if truthy a then a
                                       else dget_default signal_data ''tgt'' PNone)
                  in if truthy single_target
                     then (case py_float single_target of
                             Inl e \<Rightarrow> Inl e | Inr r \<Rightarrow> Inr (PList [PFloat r]))
                     else Inr targets0)
            else Inr targets0) of
        Inl e \<Rightarrow> Inl e
      | Inr (PStr s) \<Rightarrow>
          (case float_all (map PStr (filter (\<lambda>t. strip t \<noteq> []) (split_on CHR '','' s))) of
             Inl e \<Rightarrow> Inl e | Inr rs \<Rightarrow> Inr (PList (map PFloat rs)))
      | Inr (PList xs) \<Rightarrow>
          (case float_all (filter truthy xs) of
             Inl e \<Rightarrow> Inl e | Inr rs \<Rightarrow> Inr (PList (map PFloat rs)))
      | Inr other \<Rightarrow> Inr other)"

text \<open>\<^verbatim>\<open>float(targets[-1]) if targets else 0.0\<close>.\<close>

definition last_target :: "pyval \<Rightarrow> pyerr + real" where
  "last_target targets =
     (if \<not> truthy targets then Inr 0
      else case targets of
             PList xs \<Rightarrow> py_float (last xs)
           | PDict d \<Rightarrow> Inl (KeyError ''-1'')
           | _ \<Rightarrow> Inl TypeError)"

datatype row_outcome = Expired | Failed pyerr | Restored string pydict

definition restore_position ::
  "real \<Rightarrow> sandbox_order list \<Rightarrow> sandbox_position \<Rightarrow> row_outcome" where
  "restore_position now orders pos =
     (if (case sp_created_at pos of None \<Rightarrow> False | Some c \<Rightarrow> date_of c < date_of now)
      then Expired
      else
        case (case sp_signal_data pos of
                NoJson \<Rightarrow> Inr []
              | BadJson \<Rightarrow> Inl JSONDecodeError
              | Json (PDict d) \<Rightarrow> Inr d
              | Json _ \<Rightarrow> Inl AttributeError) of
          Inl e \<Rightarrow> Failed e
        | Inr signal_data \<Rightarrow>
        (case restore_sl orders pos signal_data of
          Inl e \<Rightarrow> Failed e
        | Inr (sl, sl_order_id) \<Rightarrow>
        (case restore_targets signal_data of
          Inl e \<Rightarrow> Failed e
        | Inr targets \<Rightarrow>
        (case sp_average_price pos of
          None \<Rightarrow> Failed TypeError
        | Some avg \<Rightarrow>
        (case last_target targets of
          Inl e \<Rightarrow> Failed e
        | Inr final_target \<Rightarrow>
            (let fake_order_id = ''SANDBOX_'' @ str_int (sp_id pos);
                 action = (if sp_quantity pos > 0 then ''BUY'' else ''SELL'')
             in Restored fake_order_id
                  [(''order_id'', PStr fake_order_id),
                   (''symbol'', PStr (sp_symbol pos)),
                   (''exchange'', PStr (sp_exchange pos)),
                   (''action'', PStr action),
                   (''quantity'', PInt (abs (sp_quantity pos))),
                   (''entry_price'', PFloat avg),
                   (''current_sl'', PFloat sl),
                   (''original_sl'', PFloat sl),
                   (''final_target'', PFloat final_target),
                   (''targets'', targets),
                   (''signal_data'', PDict signal_data),
                   (''username'', PStr (sp_user_id pos)),
                   (''product'', PStr (sp_product pos)),
                   (''sl_order_id'', (case sl_order_id of None \<Rightarrow> PNone | Some s \<Rightarrow> PStr s)),
                   (''trailing_enabled'', PBool True),
                   (''highest_price'', PFloat avg),
                   (''t1_exit_done'', PBool False)]))))))"

text \<open>
  The loop over the open rows (quantity not 0).  An expired row is closed in
  the ledger (quantity set to 0), a row that raises is skipped, a restored
  row is stored under its \<^verbatim>\<open>SANDBOX_<id>\<close> key.  The result is the
  monitor and the ledger's position table.
\<close>

fun restore_rows ::
  "real \<Rightarrow> sandbox_order list \<Rightarrow> sandbox_position list \<Rightarrow> monitor
     \<Rightarrow> monitor \<times> sandbox_position list" where
  "restore_rows now orders [] m = (m, [])"
| "restore_rows now orders (pos # rest) m =
     (if sp_quantity pos = 0
      then (let (m', rest') = restore_rows now orders rest m in (m', pos # rest'))
      else case restore_position now orders pos of
             Expired \<Rightarrow>
               (let (m', rest') = restore_rows now orders rest m
                in (m', pos\<lparr>sp_quantity := 0\<rparr> # rest'))
           | Failed e \<Rightarrow>
               (let (m', rest') = restore_rows now orders rest m in (m', pos # rest'))
           | Restored oid p \<Rightarrow>
               (let (m', rest') =
                      restore_rows now orders rest
                        (m\<lparr>active_positions := dset (active_positions m) oid p\<rparr>)
                in (m', pos # rest')))"

definition restore_from_sandbox ::
  "bool \<Rightarrow> real \<Rightarrow> sandbox_order list \<Rightarrow> sandbox_position list \<Rightarrow> monitor
     \<Rightarrow> monitor \<times> sandbox_position list" where
  "restore_from_sandbox analyze_mode now orders positions m =
     (if \<not> analyze_mode then (m, positions) else restore_rows now orders positions m)"

text \<open>\<^verbatim>\<open>PositionMonitor.__init__\<close>: two empty containers, then the restore.\<close>

definition monitor_init ::
  "bool \<Rightarrow> real \<Rightarrow> sandbox_order list \<Rightarrow> sandbox_position list
     \<Rightarrow> monitor \<times> sandbox_position list" where
  "monitor_init analyze_mode now orders positions =
     restore_from_sandbox analyze_mode now orders positions empty_monitor"

section \<open>Classifier decision (signal\_classifier.py, lines 236-242)\<close>

text \<open>
  \<^verbatim>\<open>confidence = min(1.0, max(0.0, score / 35))\<close> and
  \<^verbatim>\<open>is_signal = score >= 20 and confidence >= 0.5\<close>.  The score is a sum
  of integer weights; the quotient is taken in the reals.
\<close>

definition confidence_of :: "int \<Rightarrow> real" where
  "confidence_of score = min 1 (max 0 (of_int score / 35))"

definition initial_is_signal :: "int \<Rightarrow> bool" where
  "initial_is_signal score = (score \<ge> 20 \<and> confidence_of score \<ge> 0.5)"

text \<open>
  A ledger for the examples: a long position of 50 at average price 100
  whose signal data carries the stop-loss 95, and an open protective SELL
  order of price type SL with trigger price 97.
\<close>

definition example_row :: sandbox_position where
  "example_row =
     \<lparr>sp_id = 7, sp_user_id = ''aravind'', sp_symbol = ''NIFTY23DEC21000CE'',
      sp_exchange = ''NFO'', sp_product = ''MIS'', sp_quantity = 50,
      sp_average_price = Some 100, sp_created_at = Some 86400,
      sp_signal_data = Json (PDict [(''sl'', PStr ''95''), (''targets'', PList [PStr ''110'', PStr ''105''])])\<rparr>"

definition example_sl_order :: sandbox_order where
  "example_sl_order =
     \<lparr>so_orderid = ''SL_ORDER_999'', so_user_id = ''aravind'', so_symbol = ''NIFTY23DEC21000CE'',
      so_exchange = ''NFO'', so_product = ''MIS'', so_action = ''SELL'',
      so_order_status = ''open'', so_price_type = ''SL'', so_trigger_price = Some 97,
      so_order_timestamp = 86500\<rparr>"

text \<open>What the restore reads of a row: the action that closes it and its signal data.\<close>

definition exit_action_of :: "sandbox_position \<Rightarrow> string" where
  "exit_action_of pos = (if sp_quantity pos > 0 then ''SELL'' else ''BUY'')"

definition signal_dict_of :: "sandbox_position \<Rightarrow> pydict" where
  "signal_dict_of pos = (case sp_signal_data pos of Json (PDict d) \<Rightarrow> d | _ \<Rightarrow> [])"

definition restored_field :: "row_outcome \<Rightarrow> string \<Rightarrow> pyval option" where
  "restored_field r k = (case r of Restored oid p \<Rightarrow> dget p k | _ \<Rightarrow> None)"

text \<open>
  The final target as the specification words it: the greatest target for a
  BUY, the least for a SELL.
\<close>

definition spec_final_target :: "string \<Rightarrow> real list \<Rightarrow> real" where
  "spec_final_target action targets =
     (if action = ''BUY'' then list_max targets else list_min targets)"

definition example_row_no_sl :: sandbox_position where
  "example_row_no_sl = example_row\<lparr>sp_signal_data := NoJson\<rparr>"

definition example_old_order :: sandbox_order where
  "example_old_order = example_sl_order\<lparr>so_order_status := ''cancelled'', so_trigger_price := Some 96\<rparr>"

section \<open>Strings of values\<close>

text \<open>\<^verbatim>\<open>s.upper()\<close> and \<^verbatim>\<open>s.lower()\<close> on the ASCII letters.\<close>

definition upper_char :: "char \<Rightarrow> char" where
  "upper_char c =
     (case map_of (zip ''abcdefghijklmnopqrstuvwxyz'' ''ABCDEFGHIJKLMNOPQRSTUVWXYZ'') c of
        Some u \<Rightarrow> u | None \<Rightarrow> c)"

definition lower_char :: "char \<Rightarrow> char" where
  "lower_char c =
     (case map_of (zip ''ABCDEFGHIJKLMNOPQRSTUVWXYZ'' ''abcdefghijklmnopqrstuvwxyz'') c of
        Some l \<Rightarrow> l | None \<Rightarrow> c)"

definition upper :: "string \<Rightarrow> string" where
  "upper s = map upper_char s"

definition lower :: "string \<Rightarrow> string" where
  "lower s = map lower_char s"

text \<open>\<^verbatim>\<open>x.upper()\<close> on a value: only a string has the method.\<close>

fun py_upper :: "pyval \<Rightarrow> pyerr + string" where
  "py_upper (PStr s) = Inr (upper s)"
| "py_upper _ = Inl AttributeError"

fun py_lower :: "pyval \<Rightarrow> pyerr + string" where
  "py_lower (PStr s) = Inr (lower s)"
| "py_lower _ = Inl AttributeError"

text \<open>
  \<^verbatim>\<open>str(x)\<close>.  A float is written as its decimal expansion with at least
  one digit after the point (\<^verbatim>\<open>2450.0\<close>, \<^verbatim>\<open>100.55\<close>): the shortest
  numeral that reads back as the same number, which is what Python prints for
  the floats between 0.0001 and 10^16 that a decimal numeral of at most 15
  digits denotes.  A string inside a list or dictionary is quoted without
  escapes.  Signal data never holds a \<^verbatim>\<open>datetime\<close>; it is written as a
  fixed word.
\<close>

fun frac_digits :: "nat \<Rightarrow> real \<Rightarrow> string" where
  "frac_digits 0 r = []"
| "frac_digits (Suc n) r =
     (if r = 0 then []
      else digit_char (nat \<lfloor>r * 10\<rfloor>) # frac_digits n (r * 10 - of_int \<lfloor>r * 10\<rfloor>))"

definition float_repr :: "real \<Rightarrow> string" where
  "float_repr r =
     (let a = \<bar>r\<bar>; fp = frac_digits 17 (a - of_int \<lfloor>a\<rfloor>)
      in (if r < 0 then ''-'' else []) @ str_nat (nat \<lfloor>a\<rfloor>) @ ''.'' @
         (if fp = [] then ''0'' else fp))"

fun join :: "string \<Rightarrow> string list \<Rightarrow> string" where
  "join sep [] = []"
| "join sep [x] = x"
| "join sep (x # y # ys) = x @ sep @ join sep (y # ys)"

fun py_str :: "pyval \<Rightarrow> string" and py_repr :: "pyval \<Rightarrow> string" where
  "py_str PNone = ''None''"
| "py_str (PBool b) = (if b then ''True'' else ''False'')"
| "py_str (PInt i) = str_int i"
| "py_str (PFloat r) = float_repr r"
| "py_str (PStr s) = s"
| "py_str (PTime t) = ''datetime''"
| "py_str (PList xs) = ''['' @ join '', '' (map py_repr xs) @ '']''"
| "py_str (PDict d) =
     ''{'' @ join '', '' (map (\<lambda>(k, v). [CHR 0x27] @ k @ [CHR 0x27] @ [CHR 0x3A, CHR 0x20] @ py_repr v) d) @ ''}''"
| "py_repr (PStr s) = [CHR 0x27] @ s @ [CHR 0x27]"
| "py_repr PNone = py_str PNone"
| "py_repr (PBool b) = py_str (PBool b)"
| "py_repr (PInt i) = py_str (PInt i)"
| "py_repr (PFloat r) = py_str (PFloat r)"
| "py_repr (PTime t) = py_str (PTime t)"
| "py_repr (PList xs) = py_str (PList xs)"
| "py_repr (PDict d) = py_str (PDict d)"

text \<open>
  Python computes on floats in binary: every product, sum and difference is
  rounded to a double, and \<^verbatim>\<open>round(x, 1)\<close> rounds the double it is
  given.  These operations belong to the language, not to the sources, and a
  real number cannot say which double stands behind it; where the code
  computes a new float from a price, the four operations it uses are
  parameters of the model.
\<close>

record float_ops =
  fmul :: "real \<Rightarrow> real \<Rightarrow> real"
  fadd :: "real \<Rightarrow> real \<Rightarrow> real"
  fsub :: "real \<Rightarrow> real \<Rightarrow> real"
  fround1 :: "real \<Rightarrow> real"

text \<open>Sequencing of computations that may raise.\<close>

definition ebind :: "pyerr + 'a \<Rightarrow> ('a \<Rightarrow> pyerr + 'b) \<Rightarrow> pyerr + 'b" where
  "ebind x f = (case x of Inl e \<Rightarrow> Inl e | Inr v \<Rightarrow> f v)"

section \<open>Signal Execution Service (services/signal\_execution\_service.py)\<close>

text \<open>
  The service object: the safety toggle, the confidence threshold, the
  duplicate window in seconds, the recent signals of each channel (a
  \<^verbatim>\<open>defaultdict(list)\<close> of (hash, time) pairs) and the six counters of
  \<^verbatim>\<open>self.stats\<close>.
\<close>

record service =
  enabled :: bool
  confidence_threshold :: real
  duplicate_window :: real
  recent_signals :: "(string \<times> (string \<times> real) list) list"
  total_signals :: int
  executed :: int
  skipped_low_confidence :: int
  skipped_duplicate :: int
  skipped_disabled :: int
  failed :: int

text \<open>
  The collaborators of \<^verbatim>\<open>_convert_signal_to_order\<close> that lie outside
  the sources, as the answers they give during one call: the clock, the quote
  service, and the symbol table lookup at the end of
  \<^verbatim>\<open>_resolve_option_symbol\<close> (base symbol, strike, option type, exchange,
  expiry tag to symbol and lot size).
\<close>

record env =
  clock :: real
  get_quotes :: "string \<Rightarrow> string \<Rightarrow> pyerr + pyval"
  lookup_symbol :: "string \<Rightarrow> real \<Rightarrow> string \<Rightarrow> string \<Rightarrow> pyval \<Rightarrow> (string \<times> pyval) option"

text \<open>\<^verbatim>\<open>_generate_signal_hash\<close> (lines 67-76).\<close>

definition generate_signal_hash :: "pydict \<Rightarrow> string" where
  "generate_signal_hash signal_data =
     upper (join ''|''
       [py_str (dget_default signal_data ''action'' (PStr [])),
        py_str (dget_default signal_data ''symbol'' (PStr [])),
        py_str (dget_default signal_data ''strike'' (PStr [])),
        py_str (dget_default signal_data ''option_type'' (PStr []))])"

text \<open>
  \<^verbatim>\<open>_is_duplicate\<close> (lines 78-98): purge the channel's entries that are
  as old as the window or older, look for the hash among the rest, and record
  the signal only when it is not found.
\<close>

definition channel_signals :: "service \<Rightarrow> string \<Rightarrow> (string \<times> real) list" where
  "channel_signals svc channel =
     (case dget (recent_signals svc) channel of None \<Rightarrow> [] | Some l \<Rightarrow> l)"

definition is_duplicate :: "real \<Rightarrow> string \<Rightarrow> pydict \<Rightarrow> service \<Rightarrow> bool \<times> service" where
  "is_duplicate now channel signal_data svc =
     (let signal_hash = generate_signal_hash signal_data;
          kept = filter (\<lambda>(h, t). now - t < duplicate_window svc) (channel_signals svc channel)
      in if list_ex (\<lambda>(existing_hash, timestamp). existing_hash = signal_hash) kept
         then (True, svc\<lparr>recent_signals := dset (recent_signals svc) channel kept\<rparr>)
         else (False, svc\<lparr>recent_signals :=
                 dset (recent_signals svc) channel (kept @ [(signal_hash, now)])\<rparr>))"

text \<open>\<^verbatim>\<open>_validate_signal\<close> (lines 100-129).\<close>

definition quoted :: "string \<Rightarrow> string" where
  "quoted s = [CHR 0x27] @ s @ [CHR 0x27]"

definition validate_signal :: "pydict \<Rightarrow> bool \<times> string option" where
  "validate_signal signal_data =
     (if \<not> dtruthy signal_data ''action'' then (False, Some (''Missing '' @ quoted ''action'' @ '' (BUY/SELL)''))
      else if \<not> dtruthy signal_data ''symbol'' then (False, Some (''Missing '' @ quoted ''symbol''))
      else if \<not> (dtruthy signal_data ''tgt'' \<or> dtruthy signal_data ''targets'')
        then (False, Some ''Missing Mandatory Target'')
      else if dtruthy signal_data ''strike'' \<or> dtruthy signal_data ''option_type''
        then (if \<not> dtruthy signal_data ''strike''
              then (False, Some (''Options signal missing '' @ quoted ''strike''))
              else if \<not> dtruthy signal_data ''option_type''
              then (False, Some (''Options signal missing '' @ quoted ''option_type'' @ '' (CE/PE)''))
              else (True, None))
      else (True, None))"

text \<open>
  \<^verbatim>\<open>_resolve_option_symbol\<close> (lines 570-682) as its caller sees it.  A
  strike that \<^verbatim>\<open>float\<close> rejects with \<^verbatim>\<open>ValueError\<close> makes it
  \<^verbatim>\<open>return None\<close>, which the caller's tuple assignment cannot unpack
  (\<^verbatim>\<open>TypeError\<close>); any other exception inside gives
  \<^verbatim>\<open>(None, None)\<close>; otherwise the answer is the table lookup's.
\<close>

definition resolve_option_symbol ::
  "env \<Rightarrow> string \<Rightarrow> pyval \<Rightarrow> string \<Rightarrow> string \<Rightarrow> pyval \<Rightarrow> pyerr + (pyval \<times> pyval)" where
  "resolve_option_symbol e base_symbol strike option_type exchange expiry_tag =
     (case py_float strike of
        Inl (ValueError s) \<Rightarrow> Inl TypeError
      | Inl _ \<Rightarrow> Inr (PNone, PNone)
      | Inr strike_val \<Rightarrow>
          (case lookup_symbol e base_symbol strike_val option_type exchange expiry_tag of
             None \<Rightarrow> Inr (PNone, PNone)
           | Some (s, lotsize) \<Rightarrow> Inr (PStr s, lotsize)))"

definition option_exchange :: "string \<Rightarrow> string" where
  "option_exchange symbol =
     (if symbol \<in> set [''NIFTY'', ''BANKNIFTY'', ''FINNIFTY'', ''MIDCPNIFTY''] then ''NFO''
      else if symbol \<in> set [''SENSEX'', ''BANKEX''] then ''BFO''
      else if symbol \<in> set [''CRUDEOIL'', ''GOLD'', ''SILVER'', ''NATURALGAS'', ''COPPER'', ''ZINC'']
        then ''MCX''
      else ''NFO'')"

definition cash_exchange :: "string \<Rightarrow> string" where
  "cash_exchange symbol =
     (if symbol \<in> set [''NIFTY'', ''BANKNIFTY'', ''FINNIFTY'', ''MIDCPNIFTY''] then ''NFO''
      else if symbol \<in> set [''SENSEX'', ''BANKEX''] then ''BFO''
      else if symbol \<in> set [''CRUDEOIL'', ''GOLD'', ''SILVER'', ''NATURALGAS''] then ''MCX''
      else ''NSE'')"

text \<open>
  Lines 437-447: the last traded price, 0 when the quote service raises,
  answers nothing, answers something without an \<^verbatim>\<open>'lp'\<close> entry, or
  an \<^verbatim>\<open>'lp'\<close> that \<^verbatim>\<open>float\<close> rejects.  Only a dictionary can both
  contain \<^verbatim>\<open>'lp'\<close> and be subscripted by it.
\<close>

definition fetch_ltp :: "env \<Rightarrow> string \<Rightarrow> string \<Rightarrow> real" where
  "fetch_ltp e exchange symbol =
     (case get_quotes e exchange symbol of
        Inr (PDict quote_res) \<Rightarrow>
          (case dget quote_res ''lp'' of
             None \<Rightarrow> 0
           | Some lp \<Rightarrow> (case py_float lp of Inl err \<Rightarrow> 0 | Inr r \<Rightarrow> r))
      | _ \<Rightarrow> 0)"

text \<open>
  Lines 449-537: the order type, the trigger price and the limit price that
  replaces \<^verbatim>\<open>str(price)\<close>, from the action, the condition, the entry
  price and the last traded price.  The two refusals of the BUY branch raise
  \<^verbatim>\<open>ValueError\<close> (the text is the source's without its leading
  pictograph).  The SELL branch reads \<^verbatim>\<open>entry_tolerance\<close>, a name that
  is bound nowhere in the module: after the first comparison either path
  raises \<^verbatim>\<open>NameError\<close>.  The sums and differences are those of the
  decimal numbers; at the entry price 100 and the quotes considered below the
  doubles of Python give the same numbers and the same strings.
\<close>

definition min_entry_tolerance :: real where "min_entry_tolerance = 0.1"
definition max_entry_tolerance :: real where "max_entry_tolerance = 1.5"
definition min_entry_buffer :: real where "min_entry_buffer = 0.1"
definition max_entry_buffer :: real where "max_entry_buffer = 1.0"

definition waiting_message :: "real \<Rightarrow> real \<Rightarrow> string" where
  "waiting_message current_ltp entry_price =
     ''LTP '' @ float_repr current_ltp @ '' is below minimum entry '' @
     float_repr (entry_price + min_entry_tolerance) @ ''. Waiting...''"

definition pullback_message :: "real \<Rightarrow> real \<Rightarrow> string" where
  "pullback_message current_ltp entry_price =
     ''LTP '' @ float_repr current_ltp @ '' is > '' @ float_repr max_entry_tolerance @
     '' pts away from Entry '' @ float_repr entry_price @ ''. Waiting for pullback to '' @
     float_repr (entry_price + min_entry_tolerance) @ ''-'' @
     float_repr (entry_price + max_entry_tolerance) @ '' range.''"

definition entry_decision ::
  "string \<Rightarrow> string \<Rightarrow> real \<Rightarrow> real \<Rightarrow> pyerr + (string \<times> string option \<times> string option)" where
  "entry_decision action condition entry_price current_ltp =
     (if current_ltp > 0 then
        (if action = ''BUY'' then
           (if current_ltp < entry_price
            then Inr (''SL'', Some (float_repr (entry_price + min_entry_tolerance)),
                      Some (float_repr (entry_price + max_entry_tolerance)))
            else if entry_price + min_entry_tolerance \<le> current_ltp
                    \<and> current_ltp \<le> entry_price + max_entry_tolerance
            then Inr (''LIMIT'', None, Some (float_repr (current_ltp + 0.05)))
            else if current_ltp < entry_price + min_entry_tolerance
            then Inl (ValueError (waiting_message current_ltp entry_price))
            else Inl (ValueError (pullback_message current_ltp entry_price)))
         else if action = ''SELL'' then
           (if current_ltp > entry_price
            then Inl (NameError ''entry_tolerance'')
            else Inl (NameError ''entry_tolerance''))
         else Inr (''LIMIT'', None, None))
      else
        (if condition = ''above''
         then Inr (''SL'', Some (float_repr (entry_price + min_entry_buffer)),
                   Some (float_repr (entry_price + max_entry_buffer)))
         else if condition = ''below''
         then Inr (''SL'', Some (float_repr (entry_price - min_entry_buffer)),
                   Some (float_repr (entry_price - max_entry_buffer)))
         else Inr (''LIMIT'', None, Some (float_repr (entry_price + min_entry_buffer)))))"

text \<open>
  \<^verbatim>\<open>_convert_signal_to_order\<close> (lines 357-560).  The order is built key
  by key as the source does; \<open>sy\<close> and \<open>ex\<close> are
  \<^verbatim>\<open>order['symbol']\<close> and \<^verbatim>\<open>order['exchange']\<close> at the time of the
  quote request.
\<close>

definition order_symbol_part ::
  "env \<Rightarrow> pydict \<Rightarrow> pydict \<Rightarrow> pyerr + (pydict \<times> string \<times> string)" where
  "order_symbol_part e signal_data order0 =
     ebind (py_upper (dget_default signal_data ''symbol'' (PStr []))) (\<lambda>symbol.
     let strike = dget_default signal_data ''strike'' PNone in
     ebind (py_upper (dget_default signal_data ''option_type'' (PStr []))) (\<lambda>option_type.
     if truthy strike \<and> option_type \<noteq> [] then
       (let ex = option_exchange symbol;
            order1 = dset (dset order0 ''symbol'' (PStr symbol)) ''exchange'' (PStr ex);
            expiry_tag = dget_default signal_data ''expiry'' PNone
        in ebind (resolve_option_symbol e symbol strike option_type ex expiry_tag)
             (\<lambda>(resolved_symbol, resolved_lotsize).
                let (order2, sy) =
                      (if truthy resolved_symbol
                       then (let o1 = dset order1 ''symbol'' resolved_symbol
                             in (if \<not> dtruthy signal_data ''quantity''
                                 then dset o1 ''quantity''
                                        (PStr (if truthy resolved_lotsize
                                               then py_str resolved_lotsize else ''1''))
                                 else o1,
                                 py_str resolved_symbol))
                       else (dset order1 ''symbol'' (PStr symbol), symbol));
                    order3 = (if \<not> dhas order2 ''quantity''
                              then dset order2 ''quantity''
                                     (dget_default signal_data ''quantity'' (PStr ''1''))
                              else order2)
                in Inr (order3, sy, ex)))
     else
       (let ex = cash_exchange symbol
        in Inr (dset (dset order0 ''symbol'' (PStr symbol)) ''exchange'' (PStr ex), symbol, ex))))"

definition convert_signal_to_order :: "env \<Rightarrow> pydict \<Rightarrow> pyerr + pydict" where
  "convert_signal_to_order e signal_data =
     ebind (py_upper (dget_default signal_data ''action'' (PStr ''BUY''))) (\<lambda>order_action.
     ebind (order_symbol_part e signal_data [(''action'', PStr order_action)]) (\<lambda>(order1, sy, ex).
     let order2 = (if \<not> dhas order1 ''quantity''
                   then dset order1 ''quantity''
                          (dget_default signal_data ''quantity'' (PStr ''1''))
                   else order1);
         price = dget_default signal_data ''price'' PNone
     in
     ebind
       (if truthy price then
          ebind (py_float price) (\<lambda>entry_price.
          let order3 = dset order2 ''price'' (PStr (py_str price));
              current_ltp = fetch_ltp e ex sy
          in
          ebind (py_lower (dget_default signal_data ''condition'' (PStr []))) (\<lambda>condition.
          let action = upper order_action in
          ebind (entry_decision action condition entry_price current_ltp)
            (\<lambda>(final_pricetype, final_trigger, new_price).
               let order4 = (case new_price of
                               None \<Rightarrow> order3 | Some p \<Rightarrow> dset order3 ''price'' (PStr p));
                   order5 = dset order4 ''pricetype'' (PStr final_pricetype)
               in Inr (case final_trigger of
                         None \<Rightarrow> order5
                       | Some t \<Rightarrow> if t \<noteq> [] then dset order5 ''trigger_price'' (PStr t)
                                   else order5))))
        else Inr (dset (dset order2 ''price'' (PStr ''0'')) ''pricetype'' (PStr ''MARKET'')))
       (\<lambda>order6.
          Inr (dset (dset (dset order6 ''product'' (PStr ''MIS''))
                       ''targets'' (dget_default signal_data ''targets'' (PList [])))
                 ''signal_data'' (PDict signal_data)))))"

text \<open>
  \<^verbatim>\<open>execute_signal\<close> (lines 131-355) is not embedded as a whole.  In the
  source its \<^verbatim>\<open>try:\<close> of line 258 is followed, at line 291, by a
  statement at the indentation of the \<^verbatim>\<open>try\<close> itself, with no
  \<^verbatim>\<open>except\<close> or \<^verbatim>\<open>finally\<close> in between: the method is not
  well-formed Python, and the module that holds it does not compile.  What
  the method would do from its safety checks on is therefore left open here.

  The statements that stand before the safety checks (lines 152-175) are well
  formed on their own: the inference of the action and the automatic
  stop-loss.  Both write into the caller's \<^verbatim>\<open>signal_data\<close>.  An
  exception inside the stop-loss computation is caught and logged.
\<close>

definition infer_action :: "pydict \<Rightarrow> pydict" where
  "infer_action signal_data =
     (if \<not> dtruthy signal_data ''action''
          \<and> dget_default signal_data ''option_type'' PNone \<in> set [PStr ''CE'', PStr ''PE'']
      then dset signal_data ''action'' (PStr ''BUY'')
      else signal_data)"

definition auto_sl :: "float_ops \<Rightarrow> pydict \<Rightarrow> pydict" where
  "auto_sl fl signal_data =
     (if \<not> dtruthy signal_data ''sl'' \<and> dtruthy signal_data ''price'' then
        (case ebind (py_float (dget_default signal_data ''price'' PNone)) (\<lambda>entry.
              ebind (py_upper (dget_default signal_data ''action'' (PStr ''BUY''))) (\<lambda>action.
              let sl_dist = fmul fl entry 0.10;
                  calc_sl = (if action = ''BUY'' then fsub fl entry sl_dist
                             else fadd fl entry sl_dist)
              in Inr (fround1 fl calc_sl))) of
           Inl err \<Rightarrow> signal_data
         | Inr calc_sl \<Rightarrow> dset signal_data ''sl'' (PFloat calc_sl))
      else signal_data)"

text \<open>
  The service as \<^verbatim>\<open>__init__\<close> leaves it when \<^verbatim>\<open>AUTO_EXECUTE_SIGNALS\<close>
  is \<^verbatim>\<open>true\<close> and the threshold is the default 0.7; the window is 5
  seconds.
\<close>

definition enabled_service :: service where
  "enabled_service =
     \<lparr>enabled = True, confidence_threshold = 0.7, duplicate_window = 5, recent_signals = [],
      total_signals = 0, executed = 0, skipped_low_confidence = 0, skipped_duplicate = 0,
      skipped_disabled = 0, failed = 0\<rparr>"

text \<open>
  Example signals and collaborators: a BUY of RELIANCE with entry reference
  price 100, its SELL twin, and an environment whose quote service answers
  the last traded price \<open>q\<close> for every instrument.
\<close>

definition buy_signal :: pydict where
  "buy_signal =
     [(''action'', PStr ''BUY''), (''symbol'', PStr ''RELIANCE''), (''price'', PStr ''100''),
      (''condition'', PStr ''above''), (''sl'', PStr ''95''), (''targets'', PList [PStr ''110'']),
      (''tgt'', PStr ''110.0'')]"

definition sell_signal :: pydict where
  "sell_signal =
     [(''action'', PStr ''SELL''), (''symbol'', PStr ''RELIANCE''), (''price'', PStr ''100''),
      (''condition'', PStr ''below''), (''sl'', PStr ''105''), (''targets'', PList [PStr ''90'']),
      (''tgt'', PStr ''90.0'')]"

definition quote_env :: "real \<Rightarrow> real \<Rightarrow> env" where
  "quote_env t q =
     \<lparr>clock = t,
      get_quotes = (\<lambda>exchange symbol. Inr (PDict [(''lp'', PFloat q)])),
      lookup_symbol = (\<lambda>b s ot ex tag. None)\<rparr>"

text \<open>
  The same BUY signal without a stop-loss, and an option signal without an
  action.
\<close>

definition buy_signal_no_sl :: pydict where
  "buy_signal_no_sl = dpop buy_signal ''sl''"

definition option_signal :: pydict where
  "option_signal =
     [(''symbol'', PStr ''NIFTY''), (''strike'', PStr ''22000''), (''option_type'', PStr ''CE'')]"

text \<open>
  Float operations for the examples: the arithmetic of the decimal numbers
  themselves, and rounding to the nearest tenth.  At the prices of the
  examples (100, with stop-loss 90.0 or 110.0) Python's doubles give the same
  numbers; in general they do not, and nothing below relies on these
  operations except the examples.
\<close>

definition nearest_tenth :: "real \<Rightarrow> real" where
  "nearest_tenth x = of_int \<lfloor>x * 10 + 1 / 2\<rfloor> / 10"

definition decimal_ops :: float_ops where
  "decimal_ops = \<lparr>fmul = (\<lambda>a b. a * b), fadd = (\<lambda>a b. a + b), fsub = (\<lambda>a b. a - b),
                   fround1 = nearest_tenth\<rparr>"

text \<open>
  The service after \<^verbatim>\<open>_is_duplicate\<close> has checked the BUY signal on
  channel \<^verbatim>\<open>ch\<close> at time 0, and after it has checked it again at time 4.
\<close>

definition service_after_0 :: service where
  "service_after_0 = snd (is_duplicate 0 ''ch'' buy_signal enabled_service)"

definition service_after_4 :: service where
  "service_after_4 = snd (is_duplicate 4 ''ch'' buy_signal service_after_0)"

section \<open>Regular expressions\<close>

text \<open>
  The classifier works by \<^verbatim>\<open>re.search\<close> and \<^verbatim>\<open>re.findall\<close>.  A pattern
  is a term of \<open>rx\<close>; matching follows Python's backtracking order (the
  first alternative first, a greedy repetition longest first, a lazy one
  shortest first), so that the head of the list of results is the match Python
  reports, with its groups.  Texts are strings of 8-bit characters: the
  classes \<^verbatim>\<open>\d\<close>, \<^verbatim>\<open>\w\<close>, \<^verbatim>\<open>\s\<close> are the ASCII ones, and the
  class of the rupee sign alone, which the source allows before a number, contains no
  character of such a text.
\<close>

datatype rx =
    Eps
  | Cls "char list"
  | NCls "char list"
  | Str string
  | Seq rx rx
  | Alt rx rx
  | Opt rx
  | Star rx
  | LazyStar rx
  | Grp nat rx
  | WordB
  | EndA
  | Ahead rx

text \<open>
  A position in the text: the character before it, the text from it on, and
  the groups captured so far (the latest first).
\<close>

record mstate =
  ms_prev :: "char option"
  ms_rest :: string
  ms_caps :: "(nat \<times> string) list"

text \<open>With \<^verbatim>\<open>re.I\<close> a class or a literal matches a letter in either case.\<close>

definition in_cls :: "bool \<Rightarrow> char list \<Rightarrow> char \<Rightarrow> bool" where
  "in_cls ic cs c = (c \<in> set cs \<or> (ic \<and> (lower_char c \<in> set cs \<or> upper_char c \<in> set cs)))"

definition word_chars :: "char list" where
  "word_chars = ''abcdefghijklmnopqrstuvwxyzABCDEFGHIJKLMNOPQRSTUVWXYZ0123456789_''"

definition is_word_char :: "char option \<Rightarrow> bool" where
  "is_word_char c = (case c of None \<Rightarrow> False | Some x \<Rightarrow> x \<in> set word_chars)"

definition advance :: "mstate \<Rightarrow> mstate" where
  "advance st =
     (case ms_rest st of [] \<Rightarrow> st | c # cs \<Rightarrow> st\<lparr>ms_prev := Some c, ms_rest := cs\<rparr>)"

fun match_str :: "bool \<Rightarrow> string \<Rightarrow> mstate \<Rightarrow> mstate list" where
  "match_str ic [] st = [st]"
| "match_str ic (x # xs) st =
     (case ms_rest st of
        [] \<Rightarrow> []
      | c # cs \<Rightarrow> if c = x \<or> (ic \<and> lower_char c = lower_char x)
                  then match_str ic xs (advance st) else [])"

text \<open>
  All the ways the pattern matches at a position, as the positions after the
  match, in the order in which Python tries them.  A repetition goes round
  again only after an iteration that consumed something.  \<open>WordB\<close> is
  \<^verbatim>\<open>\b\<close>, \<open>EndA\<close> is \<^verbatim>\<open>$\<close> (the end, or just before a final
  newline), \<open>Ahead\<close> is \<^verbatim>\<open>(?=...)\<close>.
\<close>

function rmatch :: "bool \<Rightarrow> rx \<Rightarrow> mstate \<Rightarrow> mstate list" where
  "rmatch ic Eps st = [st]"
| "rmatch ic (Cls cs) st =
     (case ms_rest st of [] \<Rightarrow> [] | c # r \<Rightarrow> if in_cls ic cs c then [advance st] else [])"
| "rmatch ic (NCls cs) st =
     (case ms_rest st of [] \<Rightarrow> [] | c # r \<Rightarrow> if in_cls ic cs c then [] else [advance st])"
| "rmatch ic (Str s) st = match_str ic s st"
| "rmatch ic (Seq a b) st = concat (map (rmatch ic b) (rmatch ic a st))"
| "rmatch ic (Alt a b) st = rmatch ic a st @ rmatch ic b st"
| "rmatch ic (Opt a) st = rmatch ic a st @ [st]"
| "rmatch ic (Star a) st =
     concat (map (\<lambda>st'. if length (ms_rest st') < length (ms_rest st)
                         then rmatch ic (Star a) st' else [])
                 (rmatch ic a st)) @ [st]"
| "rmatch ic (LazyStar a) st =
     st # concat (map (\<lambda>st'. if length (ms_rest st') < length (ms_rest st)
                              then rmatch ic (LazyStar a) st' else [])
                      (rmatch ic a st))"
| "rmatch ic (Grp n a) st =
     map (\<lambda>st'. st'\<lparr>ms_caps :=
                     (n, take (length (ms_rest st) - length (ms_rest st')) (ms_rest st))
                     # ms_caps st'\<rparr>)
         (rmatch ic a st)"
| "rmatch ic WordB st =
     (if is_word_char (ms_prev st)
           \<noteq> is_word_char (case ms_rest st of [] \<Rightarrow> None | c # r \<Rightarrow> Some c)
      then [st] else [])"
| "rmatch ic EndA st = (if ms_rest st = [] \<or> ms_rest st = [CHR 0x0A] then [st] else [])"
| "rmatch ic (Ahead a) st = (if rmatch ic a st \<noteq> [] then [st] else [])"
  by pat_completeness auto
termination
  by (relation "measures [\<lambda>(ic, r, st). size r, \<lambda>(ic, r, st). length (ms_rest st)]") auto

text \<open>
  A match: the text from where it starts, and the position where it ends.
  \<^verbatim>\<open>m.group(0)\<close> and \<^verbatim>\<open>m.group(k)\<close>.
\<close>

type_synonym rmatch_result = "string \<times> mstate"

definition whole :: "rmatch_result \<Rightarrow> string" where
  "whole m = take (length (fst m) - length (ms_rest (snd m))) (fst m)"

definition group :: "rmatch_result \<Rightarrow> nat \<Rightarrow> string" where
  "group m k = (case map_of (ms_caps (snd m)) k of None \<Rightarrow> [] | Some s \<Rightarrow> s)"

text \<open>\<^verbatim>\<open>re.search\<close>: the first position, from the left, at which the pattern matches.\<close>

fun search_from :: "bool \<Rightarrow> rx \<Rightarrow> char option \<Rightarrow> string \<Rightarrow> rmatch_result option" where
  "search_from ic r p [] =
     (case rmatch ic r \<lparr>ms_prev = p, ms_rest = [], ms_caps = []\<rparr> of
        [] \<Rightarrow> None | st' # others \<Rightarrow> Some ([], st'))"
| "search_from ic r p (c # cs) =
     (case rmatch ic r \<lparr>ms_prev = p, ms_rest = c # cs, ms_caps = []\<rparr> of
        [] \<Rightarrow> search_from ic r (Some c) cs
      | st' # others \<Rightarrow> Some (c # cs, st'))"

definition search :: "bool \<Rightarrow> rx \<Rightarrow> string \<Rightarrow> rmatch_result option" where
  "search ic r text = search_from ic r None text"

text \<open>
  \<^verbatim>\<open>re.findall\<close>: the successive matches from left to right, each search
  starting where the last match ended, one character further after an empty
  match.
\<close>

function findall_from :: "bool \<Rightarrow> rx \<Rightarrow> char option \<Rightarrow> string \<Rightarrow> rmatch_result list" where
  "findall_from ic r p text =
     (case search_from ic r p text of
        None \<Rightarrow> []
      | Some m \<Rightarrow>
          (let st' = snd m in
           if length (ms_rest st') < length text
           then m # findall_from ic r (ms_prev st') (ms_rest st')
           else (case ms_rest st' of
                   [] \<Rightarrow> [m]
                 | c # cs \<Rightarrow> if length cs < length text
                             then m # findall_from ic r (Some c) cs else [m])))"
  by pat_completeness auto
termination
  by (relation "measure (\<lambda>(ic, r, p, text). length text)") auto

definition findall :: "bool \<Rightarrow> rx \<Rightarrow> string \<Rightarrow> rmatch_result list" where
  "findall ic r text = findall_from ic r None text"

text \<open>Pattern building blocks.\<close>

definition digit :: rx where "digit = Cls ''0123456789''"
definition space_cls :: "char list" where
  "space_cls = [CHR '' '', CHR 0x09, CHR 0x0A, CHR 0x0B, CHR 0x0C, CHR 0x0D]"
definition rspace :: rx where "rspace = Cls space_cls"
definition wordc :: rx where "wordc = Cls word_chars"
definition anyc :: rx where "anyc = NCls [CHR 0x0A]"
definition upper_letter :: rx where "upper_letter = Cls ''ABCDEFGHIJKLMNOPQRSTUVWXYZ''"
definition lower_letter :: rx where "lower_letter = Cls ''abcdefghijklmnopqrstuvwxyz''"
definition rupee :: rx where "rupee = Cls []"

definition rplus :: "rx \<Rightarrow> rx" where "rplus a = Seq a (Star a)"
definition rlazy_plus :: "rx \<Rightarrow> rx" where "rlazy_plus a = Seq a (LazyStar a)"

fun rrep :: "nat \<Rightarrow> nat \<Rightarrow> rx \<Rightarrow> rx" where
  "rrep 0 0 a = Eps"
| "rrep 0 (Suc n) a = Opt (Seq a (rrep 0 n a))"
| "rrep (Suc m) 0 a = Cls []"
| "rrep (Suc m) (Suc n) a = Seq a (rrep m n a)"

fun rseq :: "rx list \<Rightarrow> rx" where
  "rseq [] = Eps"
| "rseq [a] = a"
| "rseq (a # b # bs) = Seq a (rseq (b # bs))"

fun ralt :: "rx list \<Rightarrow> rx" where
  "ralt [] = Cls []"
| "ralt [a] = a"
| "ralt (a # b # bs) = Alt a (ralt (b # bs))"

definition rwords :: "string list \<Rightarrow> rx" where
  "rwords ws = ralt (map Str ws)"

text \<open>\<^verbatim>\<open>\d+(?:\.\d+)?\<close>\<close>

definition number :: rx where
  "number = Seq (rplus digit) (Opt (Seq (Str ''.'') (rplus digit)))"

section \<open>Signal Classifier (services/signal\_classifier.py)\<close>

text \<open>The four weighted lexicons of \<^verbatim>\<open>__init__\<close> (lines 54-119), in source order.\<close>

definition action_keywords :: "(string \<times> int) list" where
  "action_keywords =
     [(''buy'', 12), (''sell'', 12), (''long'', 10), (''short'', 10),
      (''exit'', 8), (''square'', 7), (''book'', 6), (''close'', 5)]"

definition instrument_keywords :: "(string \<times> int) list" where
  "instrument_keywords =
     [(''nifty'', 8), (''banknifty'', 8), (''finnifty'', 8), (''midcpnifty'', 8),
      (''sensex'', 8), (''bankex'', 8),
      (''crude'', 7), (''crudeoil'', 7), (''gold'', 7), (''silver'', 7),
      (''naturalgas'', 7), (''copper'', 6), (''zinc'', 6),
      (''ce'', 7), (''pe'', 7), (''fut'', 7), (''call'', 6), (''put'', 6)]"

definition param_keywords :: "(string \<times> int) list" where
  "param_keywords =
     [(''sl'', 8), (''stoploss'', 8), (''stop'', 6),
      (''tgt'', 8), (''target'', 8), (''tp'', 8),
      (''entry'', 6), (''cmp'', 5), (''ltp'', 5),
      (''lot'', 3), (''qty'', 3), (''quantity'', 3),
      (''above'', 5), (''below'', 5), (''near'', 4), (''around'', 4),
      (''price'', 3), (''level'', 0)]"

definition noise_keywords :: "(string \<times> int) list" where
  "noise_keywords =
     [(''good'', -4), (''morning'', -4), (''evening'', -3), (''hello'', -4),
      (''thanks'', -3), (''thank'', -3), (''welcome'', -3), (''please'', -2),
      (''looking'', -4), (''trend'', -3), (''trending'', -3),
      (''analysis'', -5), (''view'', -4), (''opinion'', -4),
      (''think'', -4), (''expect'', -3), (''expecting'', -3),
      (''might'', -3), (''may'', -3), (''could'', -3), (''should'', -3),
      (''would'', -3), (''will'', -2), (''going'', -2),
      (''wait'', -6), (''waiting'', -6), (''watch'', -5), (''watching'', -5),
      (''observe'', -4), (''monitor'', -3),
      (''sideway'', -6), (''sideways'', -6), (''range'', -4), (''ranging'', -4),
      (''breakout'', -5), (''breakdown'', -5), (''zone'', -4), (''level'', -3),
      (''resistance'', -4), (''support'', -4), (''testing'', -4),
      (''bullish'', -4), (''bearish'', -4), (''neutral'', -4),
      (''what'', -4), (''how'', -4), (''when'', -4), (''where'', -3),
      (''question'', -5), (''?'', -3),
      (''both'', -4), (''all'', -3), (''everyone'', -4), (''traders'', -2),
      (''news'', -4), (''update'', -4), (''breaking'', -4), (''announcement'', -4),
      (''report'', -3), (''data'', -2),
      (''learn'', -4), (''guide'', -4), (''tutorial'', -4), (''tips'', -3),
      (''strategy'', -3), (''method'', -3),
      (''premarket'', -4), (''pre-market'', -4), (''postmarket'', -4),
      (''market'', -1)]"

text \<open>\<^verbatim>\<open>\b\d{2,6}(?:\.\d{1,2})?\b\<close> (line 122).\<close>

definition price_pattern :: rx where
  "price_pattern =
     rseq [WordB, rrep 2 6 digit, Opt (Seq (Str ''.'') (rrep 1 2 digit)), WordB]"

text \<open>The signal structure patterns (lines 126-143), all with \<^verbatim>\<open>re.I\<close>.\<close>

definition signal_patterns :: "rx list" where
  "signal_patterns =
     [rseq [Grp 1 (rwords [''buy'', ''sell'', ''long'', ''short'']), rplus rspace, rplus wordc,
            rplus rspace, rplus digit, rplus rspace, Grp 2 (rwords [''ce'', ''pe''])],
      rseq [rwords [''sl'', ''stoploss'', ''stop''], Star anyc, rwords [''tgt'', ''target'', ''tp'']],
      rseq [rwords [''tgt'', ''target'', ''tp''], Star anyc, rwords [''sl'', ''stoploss'', ''stop'']],
      rseq [rwords [''entry'', ''above'', ''below'', ''cmp'', ''ltp''], Star (Cls '':-''),
            rplus rspace, rplus digit, Star anyc, rwords [''sl'', ''target'']],
      rseq [rplus wordc, rplus rspace, rrep 3 6 digit, rplus rspace, Grp 1 (rwords [''ce'', ''pe'']),
            rplus rspace, rwords [''above'', ''below'', ''near'', ''@'', ''cmp''], Star anyc,
            Str ''sl'', Star anyc, Str ''target''],
      rseq [rplus wordc, rplus rspace, rrep 3 6 digit, rplus rspace, Grp 1 (rwords [''ce'', ''pe'']),
            Star anyc, Str ''above''],
      rseq [Str ''stock:'', Star anyc, rwords [''long'', ''short''], Star anyc, Str ''price:'',
            Star anyc, rwords [''sl'', ''tp'']]]"

text \<open>The anti-patterns (lines 146-162), all with \<^verbatim>\<open>re.I\<close>.\<close>

definition anti_patterns :: "rx list" where
  "anti_patterns =
     [Str ''?'',
      rseq [Str ''wait'', rplus rspace, Str ''for''],
      rseq [Str ''watch'', rplus rspace, rwords [''for'', ''out'']],
      rseq [rwords [''both'', ''all''], Star anyc, rwords [''nifty'', ''sensex'', ''banknifty'']],
      rseq [rwords [''breaking'', ''latest''], rplus rspace, rwords [''news'', ''update'']],
      rwords [''learn'', ''guide'', ''tutorial'', ''tips'', ''strategy'']]"

text \<open>
  \<^verbatim>\<open>re.search(r'\b' + keyword + r'\b', text_lower)\<close>; none of the keywords
  searched this way holds a character that is special in a pattern.
\<close>

definition has_keyword :: "string \<Rightarrow> string \<Rightarrow> bool" where
  "has_keyword keyword text_lower = (search False (rseq [WordB, Str keyword, WordB]) text_lower \<noteq> None)"

text \<open>\<^verbatim>\<open>x in s\<close> on strings.\<close>

fun starts_with :: "string \<Rightarrow> string \<Rightarrow> bool" where
  "starts_with [] s = True"
| "starts_with (x # xs) [] = False"
| "starts_with (x # xs) (c # cs) = (x = c \<and> starts_with xs cs)"

fun contains :: "string \<Rightarrow> string \<Rightarrow> bool" where
  "contains x [] = (x = [])"
| "contains x (c # cs) = (starts_with x (c # cs) \<or> contains x cs)"

text \<open>
  The score of \<^verbatim>\<open>classify\<close> (lines 171-234), part by part: the
  anti-patterns, the three positive lexicons, the bonus for a stop-loss word
  together with a target word, the noise words, the count of prices, and the
  first structure pattern that matches.
\<close>

definition anti_score :: "string \<Rightarrow> int" where
  "anti_score text = - 10 * int (length (filter (\<lambda>p. search True p text \<noteq> None) anti_patterns))"

definition keyword_score :: "(string \<times> int) list \<Rightarrow> string \<Rightarrow> int" where
  "keyword_score keywords text_lower =
     sum_list (map snd (filter (\<lambda>(keyword, weight). has_keyword keyword text_lower) keywords))"

definition noise_score :: "string \<Rightarrow> string \<Rightarrow> int" where
  "noise_score text text_lower =
     sum_list (map snd (filter (\<lambda>(keyword, weight).
                  if keyword = ''?'' then contains keyword text
                  else has_keyword keyword text_lower) noise_keywords))"

definition action_found_of :: "string \<Rightarrow> string option" where
  "action_found_of text_lower =
     (case find (\<lambda>keyword. has_keyword keyword text_lower) [''buy'', ''sell'', ''long'', ''short''] of
        None \<Rightarrow> None
      | Some keyword \<Rightarrow>
          Some (if keyword \<in> set [''long'', ''short'']
                then (if keyword = ''long'' then ''BUY'' else ''SELL'')
                else upper keyword))"

definition sl_tgt_bonus :: "string \<Rightarrow> int" where
  "sl_tgt_bonus text_lower =
     (let has_sl = list_ex (\<lambda>k. has_keyword k text_lower) [''sl'', ''stoploss'', ''stop''];
          has_tgt = list_ex (\<lambda>k. has_keyword k text_lower) [''tgt'', ''target'', ''tp'']
      in if has_sl \<and> has_tgt then 12 else 0)"

definition prices_score :: "string \<Rightarrow> int" where
  "prices_score text =
     (let prices = findall False price_pattern text
      in if length prices \<ge> 3 then 8 else if length prices \<ge> 2 then 4 else 0)"

definition pattern_score :: "string \<Rightarrow> int" where
  "pattern_score text = (if list_ex (\<lambda>p. search True p text \<noteq> None) signal_patterns then 10 else 0)"

definition score_of :: "string \<Rightarrow> int" where
  "score_of text =
     (let text_lower = lower text
      in anti_score text + keyword_score action_keywords text_lower
         + keyword_score instrument_keywords text_lower + keyword_score param_keywords text_lower
         + sl_tgt_bonus text_lower + noise_score text text_lower
         + prices_score text + pattern_score text)"

text \<open>
  \<^verbatim>\<open>_extract_signal_data\<close> (lines 264-462), step by step; each step takes
  the dictionary \<^verbatim>\<open>data\<close> built so far.  \<open>valid_symbols\<close> is the set
  read from \<^verbatim>\<open>symbols.csv\<close>, a file that is not among the sources.
\<close>

definition common_indices :: "string list" where
  "common_indices =
     [''NIFTY'', ''BANKNIFTY'', ''FINNIFTY'', ''MIDCPNIFTY'', ''SENSEX'', ''BANKEX'', ''CRUDEOIL'',
      ''GOLD'', ''SILVER'', ''NATURALGAS'']"

text \<open>Lines 281-288: the first word of 3 to 15 capitals that is a known symbol.\<close>

definition symbol_from_words :: "string list \<Rightarrow> string \<Rightarrow> pydict \<Rightarrow> pydict" where
  "symbol_from_words valid_symbols text data =
     (if valid_symbols \<noteq> [] then
        (let ws = map whole (findall False (rseq [WordB, rrep 3 15 upper_letter, WordB]) (upper text))
         in case find (\<lambda>w. w \<in> set valid_symbols \<or> w \<in> set common_indices) ws of
              None \<Rightarrow> data
            | Some w \<Rightarrow> dset data ''symbol'' (PStr w))
      else data)"

definition symbol_pattern :: rx where
  "symbol_pattern =
     rseq [WordB,
           Grp 1 (ralt [Str ''nifty'', Str ''banknifty'', Str ''finnifty'', Str ''midcpnifty'',
                        Str ''sensex'', Str ''bankex'',
                        rseq [Str ''crude'', Star rspace, Str ''oil''], Str ''crude'',
                        Str ''gold'', Str ''silver'',
                        rseq [Str ''natural'', Star rspace, Str ''gas''],
                        Str ''tcs'', Str ''infy'', Str ''reliance'',
                        rseq [Str ''hdfc'', Star rspace, Str ''bank''],
                        rseq [Str ''icici'', Star rspace, Str ''bank''],
                        rseq [Str ''sbin'', Opt (Str ''e'')]]),
           WordB]"

text \<open>Lines 292-308: the pattern of known names, else a ticker in parentheses.\<close>

definition symbol_from_pattern :: "string \<Rightarrow> pydict \<Rightarrow> pydict" where
  "symbol_from_pattern text data =
     (case search True symbol_pattern text of
        None \<Rightarrow>
          (case search False (rseq [Str ''('', Grp 1 (rplus upper_letter), Str '')'']) text of
             None \<Rightarrow> data
           | Some paren_symbol \<Rightarrow> dset data ''symbol'' (PStr (upper (group paren_symbol 1))))
      | Some symbol_match \<Rightarrow>
          (let raw_symbol = upper (group symbol_match 1)
           in if contains ''NATURAL'' raw_symbol then dset data ''symbol'' (PStr ''NATURALGAS'')
              else if contains ''CRUDE'' raw_symbol then dset data ''symbol'' (PStr ''CRUDEOIL'')
              else dset data ''symbol'' (PStr (filter (\<lambda>c. c \<noteq> CHR '' '') raw_symbol))))"

text \<open>Lines 312-316: a word followed by a strike and CE or PE.\<close>

definition symbol_generic :: "string \<Rightarrow> pydict \<Rightarrow> pydict" where
  "symbol_generic text data =
     (if \<not> dhas data ''symbol'' then
        (case search True (rseq [WordB, Grp 1 (rrep 3 15 upper_letter), rplus rspace,
                                 Grp 2 (rrep 3 6 digit), rplus rspace, rwords [''CE'', ''PE'']]) text of
           None \<Rightarrow> data
         | Some generic_match \<Rightarrow> dset data ''symbol'' (PStr (upper (group generic_match 1))))
      else data)"

text \<open>Lines 321-328: strike and option type.\<close>

definition extract_strike :: "string \<Rightarrow> pydict \<Rightarrow> pydict" where
  "extract_strike text data =
     (case search False (rseq [WordB, Grp 1 (rrep 3 6 digit), WordB]) text of
        None \<Rightarrow> data
      | Some strike_match \<Rightarrow> dset data ''strike'' (PStr (group strike_match 1)))"

definition extract_option_type :: "string \<Rightarrow> pydict \<Rightarrow> pydict" where
  "extract_option_type text data =
     (case search True (rseq [WordB, Grp 1 (rwords [''CE'', ''PE'', ''Call'', ''Put'']), WordB]) text of
        None \<Rightarrow> data
      | Some option_match \<Rightarrow>
          (let otype = upper (group option_match 1)
           in dset data ''option_type'' (PStr (if otype \<in> set [''CE'', ''CALL''] then ''CE'' else ''PE''))))"

text \<open>
  Lines 335-350: expiry, a day with a month before a month alone.  The month is
  group 2 of the first pattern and group 1 of the second in the source; here it
  is numbered 2 in both.
\<close>

definition month_pattern :: rx where
  "month_pattern =
     Seq (Grp 2 (rwords [''JAN'', ''FEB'', ''MAR'', ''APR'', ''MAY'', ''JUN'', ''JUL'', ''AUG'', ''SEP'',
                         ''OCT'', ''NOV'', ''DEC'']))
         (Star lower_letter)"

definition extract_expiry :: "string \<Rightarrow> pydict \<Rightarrow> pydict" where
  "extract_expiry text data =
     (let specific_expiry =
            search True (rseq [Grp 1 (rrep 1 2 digit), Opt (rwords [''st'', ''nd'', ''rd'', ''th'']),
                               Star rspace, month_pattern]) text;
          month_expiry = search True (rseq [WordB, month_pattern, WordB]) text
      in case specific_expiry of
           Some m \<Rightarrow> dset data ''expiry'' (PStr (group m 1 @ upper (take 3 (group m 2))))
         | None \<Rightarrow>
             (case month_expiry of
                Some m \<Rightarrow> dset data ''expiry'' (PStr (upper (take 3 (group m 2))))
              | None \<Rightarrow> data))"

text \<open>
  Lines 358-385: entry price and condition from the keyword pattern, else the
  first number of the text that is not the strike.
\<close>

definition entry_pattern :: rx where
  "entry_pattern =
     rseq [Grp 1 (rwords [''above'', ''below'', ''around'', ''near'', ''@'', ''at'', ''cmp'', ''price'',
                          ''entry'']),
           Star (Cls '':-''), Star rspace, Star (NCls (''0123456789'' @ [CHR 0x0A])), Star rspace,
           Grp 2 number]"

definition extract_price :: "string \<Rightarrow> pydict \<Rightarrow> pydict" where
  "extract_price text data =
     (case search True entry_pattern text of
        None \<Rightarrow> data
      | Some m \<Rightarrow>
          (let condition_word = lower (group m 1);
               data1 = dset data ''price'' (PStr (group m 2))
           in if condition_word \<in> set [''above'', ''below'', ''around'', ''near'', ''at'', ''@'']
              then dset data1 ''condition'' (PStr condition_word) else data1))"

definition same_number :: "string \<Rightarrow> pyval \<Rightarrow> bool" where
  "same_number num strike =
     (PStr num = strike \<or>
      (case (py_float (PStr num), py_float strike) of (Inr a, Inr b) \<Rightarrow> a = b | _ \<Rightarrow> False))"

definition extract_price_fallback :: "string \<Rightarrow> pydict \<Rightarrow> pydict" where
  "extract_price_fallback text data =
     (if \<not> dhas data ''price'' then
        (let all_nums = map whole (findall False (rseq [WordB, number, WordB]) text)
         in case find (\<lambda>num. \<not> (dtruthy data ''strike''
                                   \<and> same_number num (dget_default data ''strike'' PNone))) all_nums of
              None \<Rightarrow> data
            | Some num \<Rightarrow> dset data ''price'' (PStr num))
      else data)"

text \<open>Lines 389-392: stop-loss.\<close>

definition extract_sl :: "string \<Rightarrow> pydict \<Rightarrow> pydict" where
  "extract_sl text data =
     (case search True (rseq [ralt [rseq [Str ''stop'', Star rspace, Str ''loss''], Str ''sl'',
                                    Str ''stop''],
                              Star rspace, Star (Cls '':-''), Star rspace, Opt rupee, Star rspace,
                              Grp 1 number]) text of
        None \<Rightarrow> data
      | Some sl_match \<Rightarrow>
          dset (dset data ''sl'' (PStr (group sl_match 1))) ''stop_loss'' (PStr (group sl_match 1)))"

text \<open>
  Lines 396-447: the targets.  A number is kept when it converts, differs from
  the price and from the stop-loss, and is above 5.
\<close>

definition target_ok :: "pydict \<Rightarrow> string \<Rightarrow> bool" where
  "target_ok data t =
     (case (py_float (PStr t), py_float (dget_default data ''price'' (PInt 0)),
            py_float (dget_default data ''sl'' (PInt 0))) of
        (Inr val, Inr price_val, Inr sl_val) \<Rightarrow> val \<noteq> price_val \<and> val \<noteq> sl_val \<and> val > 5
      | _ \<Rightarrow> False)"

definition target_section_pattern :: rx where
  "target_section_pattern =
     rseq [rwords [''target'', ''tgt'', ''tp''], Opt (Str ''s''), Star rspace,
           Star (Cls ('':-'' @ space_cls)),
           Grp 1 (rlazy_plus (Cls (''0123456789,./+'' @ space_cls))),
           Ahead (ralt [Str ''sl'', Str ''stop'', Str ''above'', Str ''below'', Str [CHR 0x0A], EndA])]"

definition single_target_pattern :: rx where
  "single_target_pattern =
     rseq [rwords [''target'', ''tgt'', ''tp'', ''t''], Star rspace, Opt (rplus digit), Star rspace,
           Star (Cls ('':-'' @ space_cls)), Opt rupee, Star rspace, Grp 1 number]"

fun dedup :: "string list \<Rightarrow> string list" where
  "dedup [] = []"
| "dedup (x # xs) = x # dedup (filter (\<lambda>y. y \<noteq> x) xs)"

definition extract_target_list :: "string \<Rightarrow> pydict \<Rightarrow> string list" where
  "extract_target_list text data =
     (let targets1 =
            (case search True target_section_pattern text of
               None \<Rightarrow> []
             | Some target_section_match \<Rightarrow>
                 filter (target_ok data)
                   (map whole (findall False number (group target_section_match 1))));
          targets2 =
            (if targets1 = []
             then filter (target_ok data)
                    (map (\<lambda>m. group m 1) (findall True single_target_pattern text))
             else targets1)
      in dedup targets2)"

text \<open>
  Lines 450-460: \<^verbatim>\<open>tgt\<close> is \<^verbatim>\<open>str\<close> of the least target for a SELL and
  of the greatest otherwise, both taken as floats.
\<close>

definition set_targets :: "string list \<Rightarrow> pydict \<Rightarrow> pydict" where
  "set_targets targets data =
     (if targets \<noteq> [] then
        (let data1 = dset data ''targets'' (PList (map PStr targets))
         in case float_all (map PStr targets) of
              Inl err \<Rightarrow> dset data1 ''tgt'' (PStr (last targets))
            | Inr nums \<Rightarrow>
                if dget data1 ''action'' = Some (PStr ''SELL'')
                then dset data1 ''tgt'' (PStr (float_repr (list_min nums)))
                else dset data1 ''tgt'' (PStr (float_repr (list_max nums))))
      else data)"

definition extract_details :: "string \<Rightarrow> pydict \<Rightarrow> pydict" where
  "extract_details text data =
     (let data1 = extract_sl text
                    (extract_price_fallback text
                       (extract_price text
                          (extract_expiry text
                             (extract_option_type text
                                (extract_strike text (symbol_generic text data))))))
      in set_targets (extract_target_list text data1) data1)"

definition extract_signal_data :: "string list \<Rightarrow> string \<Rightarrow> string option \<Rightarrow> pydict" where
  "extract_signal_data valid_symbols text action =
     (let data = (case action of
                    None \<Rightarrow> []
                  | Some a \<Rightarrow> if a \<noteq> [] then [(''action'', PStr a)] else [])
      in extract_details text
           (symbol_from_pattern text (symbol_from_words valid_symbols text data)))"

text \<open>\<^verbatim>\<open>classify\<close> (lines 164-262).\<close>

definition classify :: "string list \<Rightarrow> string \<Rightarrow> bool \<times> real \<times> pydict option" where
  "classify valid_symbols text =
     (let score = score_of text;
          action_found = action_found_of (lower text);
          confidence = confidence_of score;
          is_signal = initial_is_signal score
      in if is_signal then
           (let extracted = extract_signal_data valid_symbols text action_found;
                has_meaningful_data =
                  (dtruthy extracted ''action'' \<or>
                   (dtruthy extracted ''symbol'' \<and>
                    (dtruthy extracted ''price'' \<or> dtruthy extracted ''sl''
                     \<or> dtruthy extracted ''tgt'')))
            in if \<not> has_meaningful_data then (False, confidence * 0.5, None)
               else (is_signal, confidence, Some extracted))
         else (is_signal, confidence, None))"

text \<open>
  The end-to-end example of the specification and the structure the
  specification gives for it.
\<close>

definition example_text :: string where
  "example_text = ''BUY RELIANCE @ 2400 SL 2380 TGT 2450''"

definition spec_extracted :: pydict where
  "spec_extracted =
     [(''action'', PStr ''BUY''), (''symbol'', PStr ''RELIANCE''), (''price'', PStr ''2400''),
      (''condition'', PStr ''@''), (''sl'', PStr ''2380''), (''targets'', PList [PStr ''2450'']),
      (''tgt'', PStr ''2450'')]"

text \<open>Two dictionaries are equal in Python when they hold the same entries, in any order.\<close>

definition same_dict :: "pydict \<Rightarrow> pydict \<Rightarrow> bool" where
  "same_dict a b =
     (list_all (\<lambda>(k, v). dget b k = Some v) a \<and> list_all (\<lambda>(k, v). dget a k = Some v) b)"

text \<open>What the classifier extracts from the example.\<close>

definition example_extracted :: pydict where
  "example_extracted =
     [(''action'', PStr ''BUY''), (''symbol'', PStr ''RELIANCE''), (''strike'', PStr ''2400''),
      (''price'', PStr ''2400''), (''condition'', PStr ''@''), (''sl'', PStr ''2380''),
      (''stop_loss'', PStr ''2380''), (''targets'', PList [PStr ''2450'']),
      (''tgt'', PStr ''2450.0'')]"

section \<open>Dictionary lemmas\<close>

lemma dget_dset: "dget (dset d k v) k' = (if k' = k then Some v else dget d k')"
  by (induction d) (auto simp: dget_def)

lemma dhas_dset: "dhas (dset d k v) k' = (k' = k \<or> dhas d k')"
  by (simp add: dhas_def dget_dset [unfolded dget_def])

lemma dget_dpop: "dget (dpop d k) k' = (if k' = k then None else dget d k')"
  by (induction d) (auto simp: dget_def)

lemma dhas_dpop_same: "\<not> dhas (dpop d k) k"
  by (simp add: dhas_def dget_dpop [unfolded dget_def])

lemma dhas_dget: "dhas d k = (dget d k \<noteq> None)"
  by (simp add: dhas_def dget_def)

lemma list_all_dset:
  "list_all (\<lambda>(k, p). P p) d \<Longrightarrow> P v \<Longrightarrow> list_all (\<lambda>(k, p). P p) (dset d k v)"
  by (induction d) auto

lemma list_all_dpop:
  "list_all (\<lambda>(k, p). P p) d \<Longrightarrow> list_all (\<lambda>(k, p). P p) (dpop d k)"
  by (induction d) auto

lemma list_all_dget:
  "list_all (\<lambda>(k, p). P p) d \<Longrightarrow> dget d k = Some p \<Longrightarrow> P p"
  by (induction d) (auto simp: dget_def split: if_splits)

section \<open>Position Monitor: lemmas\<close>

lemma set_key_unknown: "\<not> dhas (active_positions m) oid \<Longrightarrow> set_key oid k v m = m"
  by (simp add: set_key_def dhas_dget)

lemma set_key_history [simp]: "position_history (set_key oid k v m) = position_history m"
  by (simp add: set_key_def split: option.splits)

lemma position_ok_dset:
  "position_ok p \<Longrightarrow> k \<noteq> ''highest_price'' \<or> num_of v \<noteq> None \<Longrightarrow> position_ok (dset p k v)"
  by (auto simp: position_ok_def dhas_dset dget_dset split: option.splits)

lemma set_key_ok:
  "monitor_ok m \<Longrightarrow> k \<noteq> ''highest_price'' \<or> num_of v \<noteq> None \<Longrightarrow> monitor_ok (set_key oid k v m)"
  unfolding monitor_ok_def set_key_def
  by (auto split: option.splits intro!: list_all_dset position_ok_dset dest: list_all_dget)

lemma new_position_ok:
  "position_ok (new_position now oid sy ex act q ep sl ts sd u pr)"
  by (simp add: position_ok_def new_position_def dhas_def dget_def Let_def)

lemma add_position_ok:
  "monitor_ok m \<Longrightarrow> monitor_ok (add_position now oid sy ex act q ep sl ts sd u pr m)"
  unfolding monitor_ok_def add_position_def
  by (auto intro!: list_all_dset new_position_ok)

lemma remove_position_ok: "monitor_ok m \<Longrightarrow> monitor_ok (snd (remove_position now oid r m))"
  unfolding monitor_ok_def remove_position_def
  by (auto simp: Let_def split: option.splits intro!: list_all_dpop)

lemma call_monitor_ok: "monitor_ok m \<Longrightarrow> monitor_ok (call_monitor c m)"
proof (cases c)
  case (Update_sl oid v so)
  then show "monitor_ok m \<Longrightarrow> ?thesis"
    by (auto simp: update_sl_def Let_def set_key_ok split: option.splits)
next
  case (Update_highest_price oid v)
  then show "monitor_ok m \<Longrightarrow> ?thesis"
    by (auto simp: update_highest_price_def set_key_ok split: option.splits)
qed (auto simp: add_position_ok remove_position_ok set_key_ok update_target_def
       update_targets_def update_t3_timer_def update_status_def update_sl_order_id_def
       update_quantity_def mark_t1_exit_done_def update_remaining_quantity_def
       set_target_hit_flag_def disable_trailing_def enable_trailing_def)

lemma run_calls_ok: "monitor_ok m \<Longrightarrow> monitor_ok (run_calls cs m)"
  by (induction cs arbitrary: m) (auto simp: call_monitor_ok)

lemma remove_position_history_bound:
  "length (position_history m) \<le> 100 \<Longrightarrow>
   length (position_history (snd (remove_position now oid r m))) \<le> 100"
  by (auto simp: remove_position_def Let_def split: option.splits)

lemma call_monitor_history_bound:
  "length (position_history m) \<le> 100 \<Longrightarrow> length (position_history (call_monitor c m)) \<le> 100"
proof (cases c)
  case (Remove_position now oid r)
  then show "length (position_history m) \<le> 100 \<Longrightarrow> ?thesis"
    by (simp add: remove_position_history_bound)
qed (auto simp: add_position_def update_sl_def update_highest_price_def Let_def
       update_target_def update_targets_def update_t3_timer_def update_status_def
       update_sl_order_id_def update_quantity_def mark_t1_exit_done_def
       update_remaining_quantity_def set_target_hit_flag_def disable_trailing_def
       enable_trailing_def split: option.splits)

lemma run_calls_history_bound:
  "length (position_history m) \<le> 100 \<Longrightarrow> length (position_history (run_calls cs m)) \<le> 100"
  by (induction cs arbitrary: m) (auto simp: call_monitor_history_bound)

lemma example_monitor_ok: "monitor_ok example_monitor"
  unfolding example_monitor_def
  by (rule add_position_ok) (simp add: empty_monitor_def monitor_ok_def)

lemma known_position:
  "monitor_ok m \<Longrightarrow> dhas (active_positions m) oid \<Longrightarrow>
   \<exists>p c h hp. dget (active_positions m) oid = Some p \<and> dget p ''current_sl'' = Some c \<and>
     dget p ''highest_price'' = Some h \<and> num_of h = Some hp"
  unfolding monitor_ok_def dhas_dget
  by (auto dest!: list_all_dget simp: position_ok_def dhas_dget split: option.splits)

section \<open>Position Monitor: the mutators' results (C7)\<close>

text \<open>
  C7, as the code has it.  The claim says that each of the eleven mutators
  returns True exactly when the order id is in the active map.  That holds for
  ten of them; \<^verbatim>\<open>update_highest_price\<close> returns True only when the id
  is known and the price is above the stored high.  Here a known id
  (\<^verbatim>\<open>ENTRY_ORDER_123\<close>, highest price 100) and the price 90 give False.
\<close>

theorem update_highest_price_known_id_false:
  "dhas (active_positions example_monitor) ''ENTRY_ORDER_123'' \<and>
   fst (update_highest_price ''ENTRY_ORDER_123'' 90 example_monitor) = Inr False"
  by (simp add: example_monitor_def empty_monitor_def add_position_def new_position_def
        update_highest_price_def dhas_def dget_def Let_def)

text \<open>
  C7 amended.  On a monitor whose positions are well formed (every position the
  monitor itself builds is), ten mutators return True if and only if the order
  id is in the active map; \<^verbatim>\<open>update_highest_price\<close> returns True if and
  only if the id is in the map and the price is strictly above the stored
  highest price.  With an unknown id each of the eleven returns False without
  raising and leaves the monitor (active map and history) as it was.
\<close>

theorem mutators_return_and_unknown_id:
  "(monitor_ok m \<longrightarrow>
      fst (update_sl oid new_sl sl_oid m) = Inr (dhas (active_positions m) oid) \<and>
      fst (update_target oid new_target m) = Inr (dhas (active_positions m) oid) \<and>
      fst (update_targets oid targets m) = Inr (dhas (active_positions m) oid) \<and>
      fst (update_status oid new_status m) = Inr (dhas (active_positions m) oid) \<and>
      fst (update_sl_order_id oid sl_id m) = Inr (dhas (active_positions m) oid) \<and>
      fst (update_remaining_quantity oid qty m) = Inr (dhas (active_positions m) oid) \<and>
      fst (mark_t1_exit_done oid m) = Inr (dhas (active_positions m) oid) \<and>
      fst (set_target_hit_flag oid flag_name b m) = Inr (dhas (active_positions m) oid) \<and>
      fst (disable_trailing oid m) = Inr (dhas (active_positions m) oid) \<and>
      fst (enable_trailing oid m) = Inr (dhas (active_positions m) oid) \<and>
      fst (update_highest_price oid price m) =
        Inr (\<exists>p h hp. dget (active_positions m) oid = Some p \<and>
               dget p ''highest_price'' = Some h \<and> num_of h = Some hp \<and> price > hp)) \<and>
   (\<not> dhas (active_positions m) oid \<longrightarrow>
      update_sl oid new_sl sl_oid m = (Inr False, m) \<and>
      update_target oid new_target m = (Inr False, m) \<and>
      update_targets oid targets m = (Inr False, m) \<and>
      update_status oid new_status m = (Inr False, m) \<and>
      update_sl_order_id oid sl_id m = (Inr False, m) \<and>
      update_highest_price oid price m = (Inr False, m) \<and>
      update_remaining_quantity oid qty m = (Inr False, m) \<and>
      mark_t1_exit_done oid m = (Inr False, m) \<and>
      set_target_hit_flag oid flag_name b m = (Inr False, m) \<and>
      disable_trailing oid m = (Inr False, m) \<and>
      enable_trailing oid m = (Inr False, m))"
proof (intro conjI impI)
  assume ok: "monitor_ok m"
  show "fst (update_sl oid new_sl sl_oid m) = Inr (dhas (active_positions m) oid)"
  proof (cases "dhas (active_positions m) oid")
    case True
    from known_position [OF ok True] show ?thesis
      using True by (auto simp: update_sl_def Let_def)
  next
    case False
    then show ?thesis by (simp add: update_sl_def dhas_dget)
  qed
  show "fst (update_highest_price oid price m) =
        Inr (\<exists>p h hp. dget (active_positions m) oid = Some p \<and>
               dget p ''highest_price'' = Some h \<and> num_of h = Some hp \<and> price > hp)"
  proof (cases "dhas (active_positions m) oid")
    case True
    from known_position [OF ok True] show ?thesis
      by (auto simp: update_highest_price_def)
  next
    case False
    then show ?thesis by (simp add: update_highest_price_def dhas_dget)
  qed
qed (simp_all add: update_sl_def update_target_def update_targets_def update_status_def
       update_sl_order_id_def update_highest_price_def update_remaining_quantity_def
       mark_t1_exit_done_def set_target_hit_flag_def disable_trailing_def
       enable_trailing_def dhas_dget)

theorem mutators_return_and_unknown_id_witness:
  "monitor_ok example_monitor \<and> \<not> dhas (active_positions example_monitor) ''SL_ORDER_999'' \<and>
   fst (update_sl ''ENTRY_ORDER_123'' 95 None example_monitor) = Inr True \<and>
   update_sl ''SL_ORDER_999'' 95 None example_monitor = (Inr False, example_monitor) \<and>
   update_targets ''SL_ORDER_999'' [130, 140] example_monitor = (Inr False, example_monitor) \<and>
   update_highest_price ''SL_ORDER_999'' 500 example_monitor = (Inr False, example_monitor)"
proof -
  have a: "monitor_ok example_monitor" by (rule example_monitor_ok)
  have b: "\<not> dhas (active_positions example_monitor) ''SL_ORDER_999''"
    by (simp add: example_monitor_def empty_monitor_def add_position_def dhas_def)
  have c: "dhas (active_positions example_monitor) ''ENTRY_ORDER_123''"
    by (simp add: example_monitor_def empty_monitor_def add_position_def dhas_def)
  from a b c
    mutators_return_and_unknown_id [of example_monitor "''SL_ORDER_999''" 95 None 0 "[130, 140]"
      "''''" "''''" 0 "''''" False 500]
    mutators_return_and_unknown_id [of example_monitor "''ENTRY_ORDER_123''" 95 None 0 "[]"
      "''''" "''''" 0 "''''" False 0]
  show ?thesis by simp
qed

section \<open>Position Monitor: life cycle and bounded history (C8)\<close>

text \<open>
  C8.  \<^verbatim>\<open>add_position\<close> stores under the id the position it builds, whose
  status is \<^verbatim>\<open>'pending_open'\<close>, and leaves every other active position and
  the history as they were.  \<^verbatim>\<open>remove_position(order_id, reason)\<close> on an
  active id returns the position that was stored under the id, with status =
  reason and \<^verbatim>\<open>closed_at\<close> = now (not \<^verbatim>\<open>None\<close>) and every other entry
  as it was stored; it takes the id, and no other, out of the active map and
  appends the returned position to the history, dropping the oldest entry
  when the history already held 100; a second removal of the same id returns
  \<^verbatim>\<open>None\<close> and changes nothing, as does the removal of any id that is
  not active.  Whatever calls are made, a history of at most 100 entries (the
  constructor's is empty) stays at most 100 long.
\<close>

theorem position_lifecycle:
  "(dget (active_positions (add_position now oid sy ex act q ep sl ts sd u pr m)) oid
      = Some (new_position now oid sy ex act q ep sl ts sd u pr) \<and>
    dget (new_position now oid sy ex act q ep sl ts sd u pr) ''status''
      = Some (PStr ''pending_open'') \<and>
    (\<forall>k. k \<noteq> oid \<longrightarrow>
       dget (active_positions (add_position now oid sy ex act q ep sl ts sd u pr m)) k
         = dget (active_positions m) k) \<and>
    position_history (add_position now oid sy ex act q ep sl ts sd u pr m)
      = position_history m) \<and>
   (\<forall>p0. dget (active_positions m) oid = Some p0 \<longrightarrow>
      (\<exists>p m'. remove_position now oid reason m = (Some p, m') \<and>
         (\<forall>k. dget p k =
            (if k = ''closed_at'' then Some (PTime now)
             else if k = ''status'' then Some (PStr reason) else dget p0 k)) \<and>
         PTime now \<noteq> PNone \<and>
         dget (active_positions m') oid = None \<and>
         (\<forall>k. k \<noteq> oid \<longrightarrow> dget (active_positions m') k = dget (active_positions m) k) \<and>
         position_history m' =
           (if length (position_history m) \<ge> 100
            then tl (position_history m @ [p]) else position_history m @ [p]) \<and>
         last (position_history m') = p \<and>
         remove_position now' oid reason' m' = (None, m'))) \<and>
   (dget (active_positions m) oid = None \<longrightarrow> remove_position now oid reason m = (None, m)) \<and>
   (length (position_history m) \<le> 100 \<longrightarrow>
      length (position_history (run_calls calls m)) \<le> 100)"
proof -
  have add: "dget (active_positions (add_position now oid sy ex act q ep sl ts sd u pr m)) oid
      = Some (new_position now oid sy ex act q ep sl ts sd u pr) \<and>
    dget (new_position now oid sy ex act q ep sl ts sd u pr) ''status''
      = Some (PStr ''pending_open'') \<and>
    (\<forall>k. k \<noteq> oid \<longrightarrow>
       dget (active_positions (add_position now oid sy ex act q ep sl ts sd u pr m)) k
         = dget (active_positions m) k) \<and>
    position_history (add_position now oid sy ex act q ep sl ts sd u pr m)
      = position_history m"
    by (simp add: add_position_def dget_dset) (simp add: new_position_def dget_def Let_def)
  have rem: "\<exists>p m'. remove_position now oid reason m = (Some p, m') \<and>
         (\<forall>k. dget p k =
            (if k = ''closed_at'' then Some (PTime now)
             else if k = ''status'' then Some (PStr reason) else dget p0 k)) \<and>
         PTime now \<noteq> PNone \<and>
         dget (active_positions m') oid = None \<and>
         (\<forall>k. k \<noteq> oid \<longrightarrow> dget (active_positions m') k = dget (active_positions m) k) \<and>
         position_history m' =
           (if length (position_history m) \<ge> 100
            then tl (position_history m @ [p]) else position_history m @ [p]) \<and>
         last (position_history m') = p \<and>
         remove_position now' oid reason' m' = (None, m')"
    if p0: "dget (active_positions m) oid = Some p0" for p0
  proof -
    define p where "p = dset (dset p0 ''status'' (PStr reason)) ''closed_at'' (PTime now)"
    define m' where "m' = snd (remove_position now oid reason m)"
    have r: "remove_position now oid reason m = (Some p, m')"
      using p0 by (simp add: remove_position_def m'_def p_def Let_def)
    have f: "\<forall>k. dget p k =
            (if k = ''closed_at'' then Some (PTime now)
             else if k = ''status'' then Some (PStr reason) else dget p0 k)"
      by (simp add: p_def dget_dset)
    have a: "dget (active_positions m') oid = None"
      using p0 by (simp add: m'_def remove_position_def Let_def dget_dpop)
    have b: "\<forall>k. k \<noteq> oid \<longrightarrow> dget (active_positions m') k = dget (active_positions m) k"
      using p0 by (simp add: m'_def remove_position_def Let_def dget_dpop)
    have h: "position_history m' =
           (if length (position_history m) \<ge> 100
            then tl (position_history m @ [p]) else position_history m @ [p])"
      using p0 by (auto simp: m'_def remove_position_def Let_def p_def)
    have l: "last (position_history m') = p"
    proof (cases "length (position_history m) \<ge> 100")
      case True
      then have "position_history m \<noteq> []" by auto
      then have "tl (position_history m @ [p]) = tl (position_history m) @ [p]" by simp
      with h True show ?thesis by simp
    next
      case False
      with h show ?thesis by simp
    qed
    have again: "remove_position now' oid reason' m' = (None, m')"
      using a by (simp add: remove_position_def)
    from r f a b h l again show ?thesis
      by (intro exI [of _ p] exI [of _ m']) simp
  qed
  have none: "dget (active_positions m) oid = None \<longrightarrow> remove_position now oid reason m = (None, m)"
    by (simp add: remove_position_def)
  have bound: "length (position_history m) \<le> 100 \<longrightarrow>
      length (position_history (run_calls calls m)) \<le> 100"
    by (simp add: run_calls_history_bound)
  from add rem none bound show ?thesis by blast
qed

theorem position_lifecycle_witness:
  "dget (active_positions example_monitor) ''ENTRY_ORDER_123''
     = Some (new_position 0 ''ENTRY_ORDER_123'' ''NIFTY23DEC21000CE'' ''NFO'' ''BUY'' 50 100 90
               [120] [(''product'', PStr ''MIS'')] ''aravind'' ''MIS'') \<and>
   length (position_history example_monitor) \<le> 100 \<and>
   (\<exists>p m'. remove_position 7 ''ENTRY_ORDER_123'' ''sl_hit'' example_monitor = (Some p, m') \<and>
      dget p ''status'' = Some (PStr ''sl_hit'') \<and> dget p ''closed_at'' = Some (PTime 7) \<and>
      dget p ''symbol'' = Some (PStr ''NIFTY23DEC21000CE'') \<and>
      dget p ''entry_price'' = Some (PFloat 100) \<and>
      dget (active_positions m') ''ENTRY_ORDER_123'' = None \<and> position_history m' = [p] \<and>
      remove_position 8 ''ENTRY_ORDER_123'' ''closed'' m' = (None, m')) \<and>
   remove_position 7 ''OTHER'' ''sl_hit'' example_monitor = (None, example_monitor) \<and>
   length (position_history
     (run_calls [Update_status ''ENTRY_ORDER_123'' ''active'',
                 Remove_position 7 ''ENTRY_ORDER_123'' ''sl_hit''] example_monitor)) \<le> 100"
proof -
  let ?p0 = "new_position 0 ''ENTRY_ORDER_123'' ''NIFTY23DEC21000CE'' ''NFO'' ''BUY'' 50 100 90
               [120] [(''product'', PStr ''MIS'')] ''aravind'' ''MIS''"
  have c: "dget (active_positions example_monitor) ''ENTRY_ORDER_123'' = Some ?p0"
    by (simp add: example_monitor_def empty_monitor_def add_position_def dget_def)
  have o: "dget (active_positions example_monitor) ''OTHER'' = None"
    by (simp add: example_monitor_def empty_monitor_def add_position_def dget_def)
  have h: "position_history example_monitor = []"
    by (simp add: example_monitor_def empty_monitor_def add_position_def)
  have f: "dget ?p0 ''symbol'' = Some (PStr ''NIFTY23DEC21000CE'')"
    "dget ?p0 ''entry_price'' = Some (PFloat 100)"
    by (simp_all add: new_position_def dget_def Let_def)
  note t = position_lifecycle [of 7 "''ENTRY_ORDER_123''" "''''" "''''" "''''" 0 0 0 "[]" "[]"
      "''''" "''''" example_monitor "''sl_hit''" 8 "''closed''"
      "[Update_status ''ENTRY_ORDER_123'' ''active'',
        Remove_position 7 ''ENTRY_ORDER_123'' ''sl_hit'']"]
  note t' = position_lifecycle [of 7 "''OTHER''" "''''" "''''" "''''" 0 0 0 "[]" "[]"
      "''''" "''''" example_monitor "''sl_hit''" 8 "''closed''" "[]"]
  from t c obtain p m' where r:
    "remove_position 7 ''ENTRY_ORDER_123'' ''sl_hit'' example_monitor = (Some p, m')"
    "\<forall>k. dget p k =
            (if k = ''closed_at'' then Some (PTime 7)
             else if k = ''status'' then Some (PStr ''sl_hit'') else dget ?p0 k)"
    "dget (active_positions m') ''ENTRY_ORDER_123'' = None"
    "position_history m' =
           (if length (position_history example_monitor) \<ge> 100
            then tl (position_history example_monitor @ [p])
            else position_history example_monitor @ [p])"
    "remove_position 8 ''ENTRY_ORDER_123'' ''closed'' m' = (None, m')"
    by blast
  from r(2) f have g: "dget p ''status'' = Some (PStr ''sl_hit'')"
    "dget p ''closed_at'' = Some (PTime 7)"
    "dget p ''symbol'' = Some (PStr ''NIFTY23DEC21000CE'')"
    "dget p ''entry_price'' = Some (PFloat 100)"
    by simp_all
  from r(4) h have hh: "position_history m' = [p]" by simp
  from t' o have u: "remove_position 7 ''OTHER'' ''sl_hit'' example_monitor = (None, example_monitor)"
    by blast
  from t h have b: "length (position_history
     (run_calls [Update_status ''ENTRY_ORDER_123'' ''active'',
                 Remove_position 7 ''ENTRY_ORDER_123'' ''sl_hit''] example_monitor)) \<le> 100"
    by simp
  from c h r(1,3,5) g hh u b show ?thesis by simp
qed

section \<open>Startup restore: lemmas\<close>

lemma list_max_in: "ts \<noteq> [] \<Longrightarrow> list_max ts \<in> set ts"
  by (induction ts rule: list_max.induct) (auto simp: max_def)

lemma list_max_ge: "t \<in> set ts \<Longrightarrow> t \<le> list_max ts"
  by (induction ts rule: list_max.induct) (auto simp: max_def)

lemma float_all_PFloat: "float_all xs = Inr rs \<Longrightarrow> rs \<noteq> [] \<Longrightarrow> py_float (last (map PFloat rs)) = Inr (last rs)"
  by (simp add: last_map)

lemma restore_targets_list:
  "restore_targets sd = Inr (PList ts) \<Longrightarrow> \<exists>rs. ts = map PFloat rs"
  unfolding restore_targets_def Let_def
  by (auto split: if_splits sum.splits pyval.splits)

lemma last_target_list:
  "last_target (PList (map PFloat rs)) = Inr ft \<Longrightarrow> rs \<noteq> [] \<Longrightarrow> ft = last rs"
  by (simp add: last_target_def last_map)

lemma restore_position_Restored:
  assumes "restore_position now orders pos = Restored k p"
  shows "\<exists>sl oid tg ft.
           restore_sl orders pos (signal_dict_of pos) = Inr (sl, oid) \<and>
           restore_targets (signal_dict_of pos) = Inr tg \<and> last_target tg = Inr ft \<and>
           dget p ''current_sl'' = Some (PFloat sl) \<and>
           dget p ''sl_order_id'' = Some (case oid of None \<Rightarrow> PNone | Some s \<Rightarrow> PStr s) \<and>
           dget p ''targets'' = Some tg \<and> dget p ''final_target'' = Some (PFloat ft)"
proof -
  from assms obtain sd where sd: "(case sp_signal_data pos of
                NoJson \<Rightarrow> Inr []
              | BadJson \<Rightarrow> Inl JSONDecodeError
              | Json (PDict d) \<Rightarrow> Inr d
              | Json _ \<Rightarrow> Inl AttributeError) = Inr sd"
    unfolding restore_position_def by (auto split: if_splits sum.splits)
  then have sd': "signal_dict_of pos = sd"
    by (auto simp: signal_dict_of_def split: json_column.splits pyval.splits)
  from assms sd obtain sl oid where sl: "restore_sl orders pos sd = Inr (sl, oid)"
    unfolding restore_position_def by (auto split: if_splits sum.splits)
  from assms sd sl obtain tg where tg: "restore_targets sd = Inr tg"
    unfolding restore_position_def by (auto split: if_splits sum.splits)
  from assms sd sl tg obtain avg where avg: "sp_average_price pos = Some avg"
    unfolding restore_position_def by (auto split: if_splits option.splits)
  from assms sd sl tg avg obtain ft where ft: "last_target tg = Inr ft"
    unfolding restore_position_def by (auto split: if_splits sum.splits)
  from assms sd sl tg avg ft have
    "dget p ''current_sl'' = Some (PFloat sl) \<and>
     dget p ''sl_order_id'' = Some (case oid of None \<Rightarrow> PNone | Some s \<Rightarrow> PStr s) \<and>
     dget p ''targets'' = Some tg \<and> dget p ''final_target'' = Some (PFloat ft)"
    unfolding restore_position_def Let_def by (auto split: if_splits simp: dget_def)
  with sl tg ft sd' show ?thesis by blast
qed

lemma restore_sl_active:
  assumes "restore_sl orders pos sd = Inr (sl, oid)"
    and "active_sl_order_of pos (exit_action_of pos) orders = Some a"
    and "trigger_of a = Some t"
  shows "sl = t \<and> oid = Some (so_orderid a)"
proof -
  have "t \<noteq> 0" using assms(3) by (auto simp: trigger_of_def split: option.splits if_splits)
  then show ?thesis
    using assms unfolding restore_sl_def exit_action_of_def Let_def
    by (auto split: sum.splits option.splits if_splits)
qed

lemma restore_sl_historical:
  assumes "restore_sl orders pos sd = Inr (sl, oid)"
    and "active_sl_order_of pos (exit_action_of pos) orders = None"
    and "historical_sl_of pos (exit_action_of pos) orders = Some h"
    and "trigger_of h = Some t"
  shows "sl = t \<and> oid = None"
proof -
  have "t \<noteq> 0" using assms(4) by (auto simp: trigger_of_def split: option.splits if_splits)
  then show ?thesis
    using assms unfolding restore_sl_def exit_action_of_def Let_def
    by (auto split: sum.splits option.splits if_splits)
qed

lemma restore_sl_no_order:
  assumes "restore_sl orders pos sd = Inr (sl, oid)"
    and "case active_sl_order_of pos (exit_action_of pos) orders of
           Some a \<Rightarrow> trigger_of a = None
         | None \<Rightarrow> (case historical_sl_of pos (exit_action_of pos) orders of
                      Some h \<Rightarrow> trigger_of h = None | None \<Rightarrow> True)"
  shows "\<exists>s0. py_float (dget_default sd ''sl'' (PInt 0)) = Inr s0 \<and>
           (s0 \<noteq> 0 \<longrightarrow> sl = s0) \<and>
           (s0 = 0 \<longrightarrow> (\<exists>s1. py_float (dget_default sd ''stop_loss'' (PInt 0)) = Inr s1 \<and>
              (s1 \<noteq> 0 \<longrightarrow> sl = s1) \<and>
              (s1 = 0 \<longrightarrow> sl = (case sp_average_price pos of
                                   None \<Rightarrow> 0
                                 | Some avg \<Rightarrow> if sp_quantity pos > 0 then avg * 0.9
                                               else avg * 1.1))))"
  using assms unfolding restore_sl_def exit_action_of_def Let_def
  by (auto split: sum.splits option.splits if_splits)

section \<open>Final target of a stored position (C3)\<close>

text \<open>
  C3, as the code has it.  The claim says the stored final target is the
  greatest target for a BUY and the least for a SELL.  \<^verbatim>\<open>add_position\<close>
  takes the greatest whatever the action (its comment reads 'Calculate final
  target (maximum)'): a SELL added with targets 90 and 80 is stored with final
  target 90, not 80.
\<close>

theorem final_target_not_min_for_sell:
  "dget (active_positions
           (add_position 0 ''S1'' ''NIFTY'' ''NFO'' ''SELL'' 50 100 110 [90, 80] [] ''aravind''
              ''MIS'' empty_monitor)) ''S1''
     = Some (new_position 0 ''S1'' ''NIFTY'' ''NFO'' ''SELL'' 50 100 110 [90, 80] [] ''aravind''
              ''MIS'') \<and>
   dget (new_position 0 ''S1'' ''NIFTY'' ''NFO'' ''SELL'' 50 100 110 [90, 80] [] ''aravind'' ''MIS'')
     ''action'' = Some (PStr ''SELL'') \<and>
   dget (new_position 0 ''S1'' ''NIFTY'' ''NFO'' ''SELL'' 50 100 110 [90, 80] [] ''aravind'' ''MIS'')
     ''final_target'' = Some (PFloat 90) \<and>
   spec_final_target ''SELL'' [90, 80] = 80"
  by (simp add: add_position_def empty_monitor_def new_position_def dget_def Let_def
        spec_final_target_def)

text \<open>
  C3 amended.  For every position created by \<^verbatim>\<open>add_position\<close> with a
  non-empty target list, the position stored under the order id has
  final\_target = max(targets), whatever its action: the greatest target, as
  claimed, for a BUY, and the greatest target for a SELL too.
\<close>

theorem final_target_stored:
  "targets \<noteq> [] \<longrightarrow>
     (\<exists>p. dget (active_positions
                 (add_position now oid sy ex action q ep sl targets sd u pr m)) oid = Some p \<and>
          dget p ''action'' = Some (PStr action) \<and>
          dget p ''targets'' = Some (PList (map PFloat targets)) \<and>
          dget p ''final_target'' = Some (PFloat (list_max targets))) \<and>
     list_max targets \<in> set targets \<and> (\<forall>t \<in> set targets. t \<le> list_max targets)"
proof (intro conjI impI ballI)
  assume "targets \<noteq> []"
  then have "dget (new_position now oid sy ex action q ep sl targets sd u pr) ''action''
               = Some (PStr action) \<and>
             dget (new_position now oid sy ex action q ep sl targets sd u pr) ''targets''
               = Some (PList (map PFloat targets)) \<and>
             dget (new_position now oid sy ex action q ep sl targets sd u pr) ''final_target''
               = Some (PFloat (list_max targets))"
    by (simp add: new_position_def dget_def Let_def)
  moreover have "dget (active_positions
                 (add_position now oid sy ex action q ep sl targets sd u pr m)) oid
      = Some (new_position now oid sy ex action q ep sl targets sd u pr)"
    by (simp add: add_position_def dget_dset)
  ultimately show "\<exists>p. dget (active_positions
                 (add_position now oid sy ex action q ep sl targets sd u pr m)) oid = Some p \<and>
          dget p ''action'' = Some (PStr action) \<and>
          dget p ''targets'' = Some (PList (map PFloat targets)) \<and>
          dget p ''final_target'' = Some (PFloat (list_max targets))"
    by blast
next
  assume "targets \<noteq> []"
  then show "list_max targets \<in> set targets" by (rule list_max_in)
next
  fix t assume "t \<in> set targets"
  then show "t \<le> list_max targets" by (rule list_max_ge)
qed

theorem final_target_stored_witness:
  "[90, 80] \<noteq> ([] :: real list) \<and>
   (\<exists>p. dget (active_positions
               (add_position 0 ''S1'' ''NIFTY'' ''NFO'' ''SELL'' 50 100 110 [90, 80] [] ''aravind''
                  ''MIS'' example_monitor)) ''S1'' = Some p \<and>
        dget p ''action'' = Some (PStr ''SELL'') \<and>
        dget p ''final_target'' = Some (PFloat 90)) \<and>
   (\<exists>p. dget (active_positions
               (add_position 0 ''B1'' ''NIFTY'' ''NFO'' ''BUY'' 50 100 90 [105, 110] [] ''aravind''
                  ''MIS'' example_monitor)) ''B1'' = Some p \<and>
        dget p ''action'' = Some (PStr ''BUY'') \<and>
        dget p ''final_target'' = Some (PFloat 110))"
  using final_target_stored [of "[90, 80]" 0 "''S1''" "''NIFTY''" "''NFO''" "''SELL''" 50 100 110
      "[]" "''aravind''" "''MIS''" example_monitor]
    final_target_stored [of "[105, 110]" 0 "''B1''" "''NIFTY''" "''NFO''" "''BUY''" 50 100 90
      "[]" "''aravind''" "''MIS''" example_monitor]
  by simp blast

section \<open>Recovered stop-loss (C4)\<close>

text \<open>
  C4, as the code has it.  The claim puts the stop-loss embedded in the signal
  data first.  The restore reads it first but then overwrites it with the
  trigger price of the live open protective order: the row whose signal data
  says 95 and whose open SL order has trigger price 97 is restored with
  current stop-loss 97.  With no open order, a historical protective order
  overwrites it in the same way (96 here).
\<close>

theorem restore_prefers_order_trigger:
  "dget (signal_dict_of example_row) ''sl'' = Some (PStr ''95'') \<and>
   restored_field (restore_position 86600 [example_sl_order] example_row) ''current_sl''
     = Some (PFloat 97) \<and>
   restored_field (restore_position 86600 [example_old_order] example_row) ''current_sl''
     = Some (PFloat 96)"
  by (simp add: restored_field_def signal_dict_of_def restore_position_def example_row_def
        example_sl_order_def example_old_order_def date_of_def restore_sl_def dget_default_def
        dget_def parse_float_def parse_unsigned_def digit_values_def strip_def is_space_def is_digit_def
        active_sl_order_of_def historical_sl_of_def sl_orders_for_def trigger_of_def
        restore_targets_def last_target_def Let_def str_int_def str_nat.simps)

text \<open>
  C4 amended.  For a ledger row that the startup restore turns into a
  position, the current stop-loss is, in this order of priority: the trigger
  price of the most recent open protective order (price type SL or SL-M, exit
  side) when it is set and not zero; when there is no open protective order,
  the trigger price of the most recent protective order of any status when
  set and not zero; otherwise the stop-loss embedded in the signal data
  (\<^verbatim>\<open>sl\<close>, or \<^verbatim>\<open>stop_loss\<close> when \<^verbatim>\<open>sl\<close> is absent or zero);
  and when that is absent or zero too, 0.9 times the average price for a long
  row and 1.1 times for a short one.
\<close>

theorem restore_sl_priority:
  assumes "restore_position now orders pos = Restored k p"
  shows
    "(\<forall>a t. active_sl_order_of pos (exit_action_of pos) orders = Some a \<and> trigger_of a = Some t
        \<longrightarrow> dget p ''current_sl'' = Some (PFloat t) \<and>
            dget p ''sl_order_id'' = Some (PStr (so_orderid a))) \<and>
     (\<forall>h t. active_sl_order_of pos (exit_action_of pos) orders = None \<and>
        historical_sl_of pos (exit_action_of pos) orders = Some h \<and> trigger_of h = Some t
        \<longrightarrow> dget p ''current_sl'' = Some (PFloat t)) \<and>
     ((case active_sl_order_of pos (exit_action_of pos) orders of
         Some a \<Rightarrow> trigger_of a = None
       | None \<Rightarrow> (case historical_sl_of pos (exit_action_of pos) orders of
                    Some h \<Rightarrow> trigger_of h = None | None \<Rightarrow> True))
        \<longrightarrow> (\<exists>s0 avg. py_float (dget_default (signal_dict_of pos) ''sl'' (PInt 0)) = Inr s0 \<and>
              sp_average_price pos = Some avg \<and>
              (s0 \<noteq> 0 \<longrightarrow> dget p ''current_sl'' = Some (PFloat s0)) \<and>
              (s0 = 0 \<longrightarrow>
                 (\<exists>s1. py_float (dget_default (signal_dict_of pos) ''stop_loss'' (PInt 0)) = Inr s1 \<and>
                    (s1 \<noteq> 0 \<longrightarrow> dget p ''current_sl'' = Some (PFloat s1)) \<and>
                    (s1 = 0 \<longrightarrow> dget p ''current_sl'' =
                        Some (PFloat (if sp_quantity pos > 0 then avg * 0.9 else avg * 1.1)))))))"
proof -
  from restore_position_Restored [OF assms]
  obtain sl oid where r: "restore_sl orders pos (signal_dict_of pos) = Inr (sl, oid)"
    "dget p ''current_sl'' = Some (PFloat sl)"
    "dget p ''sl_order_id'' = Some (case oid of None \<Rightarrow> PNone | Some s \<Rightarrow> PStr s)"
    by blast
  from assms obtain avg where avg: "sp_average_price pos = Some avg"
    unfolding restore_position_def
    by (auto split: if_splits sum.splits option.splits)
  show ?thesis
  proof (intro conjI allI impI)
    fix a t
    assume h: "active_sl_order_of pos (exit_action_of pos) orders = Some a \<and> trigger_of a = Some t"
    with restore_sl_active [OF r(1), of a t] r
    show "dget p ''current_sl'' = Some (PFloat t)"
      and "dget p ''sl_order_id'' = Some (PStr (so_orderid a))" by auto
  next
    fix h t
    assume "active_sl_order_of pos (exit_action_of pos) orders = None \<and>
        historical_sl_of pos (exit_action_of pos) orders = Some h \<and> trigger_of h = Some t"
    with restore_sl_historical [OF r(1), of h t] r
    show "dget p ''current_sl'' = Some (PFloat t)" by auto
  next
    assume "case active_sl_order_of pos (exit_action_of pos) orders of
         Some a \<Rightarrow> trigger_of a = None
       | None \<Rightarrow> (case historical_sl_of pos (exit_action_of pos) orders of
                    Some h \<Rightarrow> trigger_of h = None | None \<Rightarrow> True)"
    from restore_sl_no_order [OF r(1) this] r(2) avg
    show "\<exists>s0 avg. py_float (dget_default (signal_dict_of pos) ''sl'' (PInt 0)) = Inr s0 \<and>
              sp_average_price pos = Some avg \<and>
              (s0 \<noteq> 0 \<longrightarrow> dget p ''current_sl'' = Some (PFloat s0)) \<and>
              (s0 = 0 \<longrightarrow>
                 (\<exists>s1. py_float (dget_default (signal_dict_of pos) ''stop_loss'' (PInt 0)) = Inr s1 \<and>
                    (s1 \<noteq> 0 \<longrightarrow> dget p ''current_sl'' = Some (PFloat s1)) \<and>
                    (s1 = 0 \<longrightarrow> dget p ''current_sl'' =
                        Some (PFloat (if sp_quantity pos > 0 then avg * 0.9 else avg * 1.1)))))"
      by auto
  qed
qed

theorem restore_sl_priority_witness:
  "restored_field (restore_position 86600 [example_sl_order] example_row) ''current_sl''
     = Some (PFloat 97) \<and>
   restored_field (restore_position 86600 [example_old_order] example_row) ''current_sl''
     = Some (PFloat 96) \<and>
   restored_field (restore_position 86600 [] example_row) ''current_sl'' = Some (PFloat 95) \<and>
   restored_field (restore_position 86600 [] example_row_no_sl) ''current_sl''
     = Some (PFloat 90)"
proof -
  note ev = restore_position_def example_row_def example_row_no_sl_def example_sl_order_def
    example_old_order_def date_of_def restore_sl_def dget_default_def dget_def parse_float_def
    parse_unsigned_def digit_values_def strip_def is_space_def is_digit_def active_sl_order_of_def
    historical_sl_of_def sl_orders_for_def trigger_of_def restore_targets_def last_target_def
    Let_def str_int_def str_nat.simps exit_action_of_def signal_dict_of_def
  obtain p1 where p1: "restore_position 86600 [example_sl_order] example_row
      = Restored ''SANDBOX_7'' p1"
    by (simp add: ev)
  have a1: "active_sl_order_of example_row (exit_action_of example_row) [example_sl_order]
      = Some example_sl_order \<and> trigger_of example_sl_order = Some 97"
    by (simp add: ev)
  obtain p2 where p2: "restore_position 86600 [example_old_order] example_row
      = Restored ''SANDBOX_7'' p2"
    by (simp add: ev)
  have a2: "active_sl_order_of example_row (exit_action_of example_row) [example_old_order] = None \<and>
      historical_sl_of example_row (exit_action_of example_row) [example_old_order]
        = Some example_old_order \<and> trigger_of example_old_order = Some 96"
    by (simp add: ev)
  obtain p3 where p3: "restore_position 86600 [] example_row = Restored ''SANDBOX_7'' p3"
    by (simp add: ev)
  obtain p4 where p4: "restore_position 86600 [] example_row_no_sl = Restored ''SANDBOX_7'' p4"
    by (simp add: ev)
  have a3: "active_sl_order_of example_row (exit_action_of example_row) [] = None"
    "historical_sl_of example_row (exit_action_of example_row) [] = None"
    "active_sl_order_of example_row_no_sl (exit_action_of example_row_no_sl) [] = None"
    "historical_sl_of example_row_no_sl (exit_action_of example_row_no_sl) [] = None"
    "py_float (dget_default (signal_dict_of example_row) ''sl'' (PInt 0)) = Inr 95"
    "py_float (dget_default (signal_dict_of example_row_no_sl) ''sl'' (PInt 0)) = Inr 0"
    "py_float (dget_default (signal_dict_of example_row_no_sl) ''stop_loss'' (PInt 0)) = Inr 0"
    "sp_average_price example_row_no_sl = Some 100" "sp_quantity example_row_no_sl = 50"
    by (simp_all add: ev)
  have c1: "dget p1 ''current_sl'' = Some (PFloat 97)"
    using restore_sl_priority [OF p1] a1 by blast
  have c2: "dget p2 ''current_sl'' = Some (PFloat 96)"
    using restore_sl_priority [OF p2] a2 by blast
  have c3: "dget p3 ''current_sl'' = Some (PFloat 95)"
    using restore_sl_priority [OF p3] a3 by simp
  have c4: "dget p4 ''current_sl'' = Some (PFloat 90)"
    using restore_sl_priority [OF p4] a3 by simp
  from c1 c2 c3 c4 p1 p2 p3 p4 show ?thesis by (simp add: restored_field_def)
qed

section \<open>Entry pricing of a BUY at entry 100 (C1)\<close>

text \<open>
  C1, the conversion.  For a BUY with entry reference price 100 and a live
  quote, \<^verbatim>\<open>_convert_signal_to_order\<close> decides: quote 99 gives an SL (stop)
  order with trigger price 100.1 and limit price 101.5; quote 100.5 gives a
  LIMIT order at 100.55; quote 100.05 is refused with the 'Waiting...'
  \<^verbatim>\<open>ValueError\<close>; quote 102 is refused with the 'Waiting for pullback'
  \<^verbatim>\<open>ValueError\<close>.  The decision does not depend on the signal's
  condition.  Each refusal leaves \<^verbatim>\<open>_convert_signal_to_order\<close> as an
  exception; the handler the claim speaks of is in \<^verbatim>\<open>execute_signal\<close>,
  which is not well-formed Python (see above), so in the code as it stands no
  handler receives it.
\<close>

theorem buy_entry_pricing_at_100:
  "entry_decision ''BUY'' condition 100 99 = Inr (''SL'', Some ''100.1'', Some ''101.5'') \<and>
   entry_decision ''BUY'' condition 100 100.5 = Inr (''LIMIT'', None, Some ''100.55'') \<and>
   entry_decision ''BUY'' condition 100 100.05 = Inl (ValueError (waiting_message 100.05 100)) \<and>
   entry_decision ''BUY'' condition 100 102 = Inl (ValueError (pullback_message 102 100)) \<and>
   waiting_message 100.05 100 = ''LTP 100.05 is below minimum entry 100.1. Waiting...'' \<and>
   pullback_message 102 100 =
     ''LTP 102.0 is > 1.5 pts away from Entry 100.0. Waiting for pullback to 100.1-101.5 range.'' \<and>
   convert_signal_to_order (quote_env 0 99) buy_signal =
     Inr [(''action'', PStr ''BUY''), (''symbol'', PStr ''RELIANCE''), (''exchange'', PStr ''NSE''),
          (''quantity'', PStr ''1''), (''price'', PStr ''101.5''), (''pricetype'', PStr ''SL''),
          (''trigger_price'', PStr ''100.1''), (''product'', PStr ''MIS''),
          (''targets'', PList [PStr ''110'']), (''signal_data'', PDict buy_signal)] \<and>
   convert_signal_to_order (quote_env 0 100.5) buy_signal =
     Inr [(''action'', PStr ''BUY''), (''symbol'', PStr ''RELIANCE''), (''exchange'', PStr ''NSE''),
          (''quantity'', PStr ''1''), (''price'', PStr ''100.55''), (''pricetype'', PStr ''LIMIT''),
          (''product'', PStr ''MIS''),
          (''targets'', PList [PStr ''110'']), (''signal_data'', PDict buy_signal)] \<and>
   convert_signal_to_order (quote_env 0 100.05) buy_signal
     = Inl (ValueError (waiting_message 100.05 100)) \<and>
   convert_signal_to_order (quote_env 0 102) buy_signal
     = Inl (ValueError (pullback_message 102 100))"
proof -
  have d: "entry_decision ''BUY'' condition 100 99 = Inr (''SL'', Some ''100.1'', Some ''101.5'') \<and>
   entry_decision ''BUY'' condition 100 100.5 = Inr (''LIMIT'', None, Some ''100.55'') \<and>
   entry_decision ''BUY'' condition 100 100.05 = Inl (ValueError (waiting_message 100.05 100)) \<and>
   entry_decision ''BUY'' condition 100 102 = Inl (ValueError (pullback_message 102 100))"
    by code_simp
  have m: "waiting_message 100.05 100 = ''LTP 100.05 is below minimum entry 100.1. Waiting...''"
    "pullback_message 102 100 =
     ''LTP 102.0 is > 1.5 pts away from Entry 100.0. Waiting for pullback to 100.1-101.5 range.''"
    by code_simp+
  have c1: "convert_signal_to_order (quote_env 0 99) buy_signal =
     Inr [(''action'', PStr ''BUY''), (''symbol'', PStr ''RELIANCE''), (''exchange'', PStr ''NSE''),
          (''quantity'', PStr ''1''), (''price'', PStr ''101.5''), (''pricetype'', PStr ''SL''),
          (''trigger_price'', PStr ''100.1''), (''product'', PStr ''MIS''),
          (''targets'', PList [PStr ''110'']), (''signal_data'', PDict buy_signal)]"
    by code_simp
  have c2: "convert_signal_to_order (quote_env 0 100.5) buy_signal =
     Inr [(''action'', PStr ''BUY''), (''symbol'', PStr ''RELIANCE''), (''exchange'', PStr ''NSE''),
          (''quantity'', PStr ''1''), (''price'', PStr ''100.55''), (''pricetype'', PStr ''LIMIT''),
          (''product'', PStr ''MIS''),
          (''targets'', PList [PStr ''110'']), (''signal_data'', PDict buy_signal)]"
    by code_simp
  have c3: "convert_signal_to_order (quote_env 0 100.05) buy_signal
     = Inl (ValueError (waiting_message 100.05 100))"
    by code_simp
  have c4: "convert_signal_to_order (quote_env 0 102) buy_signal
     = Inl (ValueError (pullback_message 102 100))"
    by code_simp
  from d m c1 c2 c3 c4 show ?thesis by blast
qed

section \<open>Entry pricing of a SELL (C2)\<close>

text \<open>
  C2 at a failing input.  For the RELIANCE SELL signal with entry reference
  price 100 the claim asks for a stop order (trigger 99.9, limit 98.5) at
  quote 101, an immediate limit order at quote 99, a 'waiting' refusal at
  quote 99.95 and a 'pullback' refusal at quote 98.  The SELL branch raises
  \<^verbatim>\<open>NameError\<close> for \<^verbatim>\<open>entry_tolerance\<close> at every live quote.
\<close>

theorem sell_entry_pricing_raises:
  "convert_signal_to_order (quote_env 0 101) sell_signal = Inl (NameError ''entry_tolerance'') \<and>
   convert_signal_to_order (quote_env 0 99) sell_signal = Inl (NameError ''entry_tolerance'') \<and>
   convert_signal_to_order (quote_env 0 99.95) sell_signal = Inl (NameError ''entry_tolerance'') \<and>
   convert_signal_to_order (quote_env 0 98) sell_signal = Inl (NameError ''entry_tolerance'')"
  by code_simp

section \<open>Signal Execution Service: lemmas\<close>

lemma dget_infer_action: "k \<noteq> ''action'' \<Longrightarrow> dget (infer_action sd) k = dget sd k"
  by (simp add: infer_action_def dget_dset)

lemma dget_auto_sl: "k \<noteq> ''sl'' \<Longrightarrow> dget (auto_sl fl sd) k = dget sd k"
  by (simp add: auto_sl_def dget_dset split: sum.splits)

lemma is_duplicate_recorded:
  "\<not> fst (is_duplicate t ch sd svc) \<Longrightarrow>
   (generate_signal_hash sd, t) \<in> set (channel_signals (snd (is_duplicate t ch sd svc)) ch)"
  by (simp add: is_duplicate_def Let_def channel_signals_def dget_dset split: if_splits)

lemma is_duplicate_not_recorded:
  "fst (is_duplicate t ch sd svc) \<Longrightarrow>
   channel_signals (snd (is_duplicate t ch sd svc)) ch =
     filter (\<lambda>(h, t'). t - t' < duplicate_window svc) (channel_signals svc ch)"
  by (simp add: is_duplicate_def Let_def channel_signals_def dget_dset split: if_splits)

lemma is_duplicate_window:
  "duplicate_window (snd (is_duplicate t ch sd svc)) = duplicate_window svc"
  by (simp add: is_duplicate_def Let_def)

lemma is_duplicate_times:
  "\<forall>(h, t') \<in> set (channel_signals svc ch). t' \<le> t \<Longrightarrow>
   \<forall>(h, t') \<in> set (channel_signals (snd (is_duplicate t ch sd svc)) ch). t' \<le> t"
  by (auto simp: is_duplicate_def Let_def channel_signals_def dget_dset split: if_splits)

lemma is_duplicate_found:
  "(generate_signal_hash sd, t1) \<in> set (channel_signals svc ch) \<Longrightarrow>
   t - t1 < duplicate_window svc \<Longrightarrow> fst (is_duplicate t ch sd svc)"
  by (auto simp: is_duplicate_def Let_def list_ex_iff)

lemma is_duplicate_expired:
  "\<forall>(h, t') \<in> set (channel_signals svc ch). duplicate_window svc \<le> t - t' \<Longrightarrow>
   \<not> fst (is_duplicate t ch sd svc)"
  by (auto simp: is_duplicate_def Let_def list_ex_iff)

section \<open>What the service writes into the signal data (C5)\<close>

text \<open>
  C5, as the code has it.  The claim says the \<^verbatim>\<open>signal_data\<close> passed to
  \<^verbatim>\<open>execute_signal\<close> is the same before and after the call.  The
  statements with which \<^verbatim>\<open>execute_signal\<close> begins write into it before
  any check: the BUY signal without \<^verbatim>\<open>sl\<close> (price 100) gets
  \<^verbatim>\<open>'sl': 90.0\<close>, and the CE signal without action gets
  \<^verbatim>\<open>'action': 'BUY'\<close>.
\<close>

theorem prelude_writes_signal_data:
  "dget buy_signal_no_sl ''sl'' = None \<and>
   dget (auto_sl decimal_ops (infer_action buy_signal_no_sl)) ''sl'' = Some (PFloat 90) \<and>
   dget option_signal ''action'' = None \<and>
   auto_sl decimal_ops (infer_action option_signal) = option_signal @ [(''action'', PStr ''BUY'')]"
  by code_simp

text \<open>
  C5 amended.  The statements of \<^verbatim>\<open>execute_signal\<close> that precede its
  safety checks (lines 152-175) leave every entry of \<^verbatim>\<open>signal_data\<close>
  other than \<^verbatim>\<open>'action'\<close> and \<^verbatim>\<open>'sl'\<close> as it was.  They set
  \<^verbatim>\<open>'action'\<close> to \<^verbatim>\<open>'BUY'\<close> exactly when the action is missing or
  empty and the option type is CE or PE.  They leave \<^verbatim>\<open>'sl'\<close> alone
  when a stop-loss is present or no price is; when the stop-loss is missing
  or empty and a price is present, they set \<^verbatim>\<open>'sl'\<close> to the float
  round(entry - entry * 0.10, 1) if the action, in capitals, is BUY and to
  round(entry + entry * 0.10, 1) otherwise, entry being the price as a float
  and the arithmetic Python's; if the price is no number or the action no
  string, the exception is swallowed and \<^verbatim>\<open>'sl'\<close> stays as it was.  A
  signal that has an action (or no CE/PE option type) and has a stop-loss (or
  no price) is left identical.
\<close>

theorem signal_data_after_prelude:
  "(\<forall>k. k \<noteq> ''action'' \<and> k \<noteq> ''sl'' \<longrightarrow>
        dget (auto_sl fl (infer_action sd)) k = dget sd k) \<and>
   (dget (auto_sl fl (infer_action sd)) ''action'' =
      (if \<not> dtruthy sd ''action''
          \<and> dget_default sd ''option_type'' PNone \<in> set [PStr ''CE'', PStr ''PE'']
       then Some (PStr ''BUY'') else dget sd ''action'')) \<and>
   (dtruthy sd ''sl'' \<or> \<not> dtruthy sd ''price'' \<longrightarrow>
      dget (auto_sl fl (infer_action sd)) ''sl'' = dget sd ''sl'') \<and>
   (\<not> dtruthy sd ''sl'' \<and> dtruthy sd ''price'' \<longrightarrow>
      (\<forall>entry a.
         py_float (dget_default sd ''price'' PNone) = Inr entry \<and>
         py_upper (dget_default (infer_action sd) ''action'' (PStr ''BUY'')) = Inr a \<longrightarrow>
         dget (auto_sl fl (infer_action sd)) ''sl'' =
           Some (PFloat (fround1 fl
             (if a = ''BUY'' then fsub fl entry (fmul fl entry 0.10)
              else fadd fl entry (fmul fl entry 0.10))))) \<and>
      ((\<exists>err. py_float (dget_default sd ''price'' PNone) = Inl err) \<or>
       (\<exists>err. py_upper (dget_default (infer_action sd) ''action'' (PStr ''BUY'')) = Inl err) \<longrightarrow>
         dget (auto_sl fl (infer_action sd)) ''sl'' = dget sd ''sl'')) \<and>
   ((dtruthy sd ''action''
       \<or> dget_default sd ''option_type'' PNone \<notin> set [PStr ''CE'', PStr ''PE'']) \<and>
    (dtruthy sd ''sl'' \<or> \<not> dtruthy sd ''price'') \<longrightarrow>
      auto_sl fl (infer_action sd) = sd)"
proof -
  have a: "\<forall>k. k \<noteq> ''action'' \<and> k \<noteq> ''sl'' \<longrightarrow> dget (auto_sl fl (infer_action sd)) k = dget sd k"
    by (simp add: dget_auto_sl dget_infer_action)
  have b: "dget (auto_sl fl (infer_action sd)) ''action'' =
      (if \<not> dtruthy sd ''action''
          \<and> dget_default sd ''option_type'' PNone \<in> set [PStr ''CE'', PStr ''PE'']
       then Some (PStr ''BUY'') else dget sd ''action'')"
    by (simp add: dget_auto_sl) (simp add: infer_action_def dget_dset)
  have i: "dtruthy (infer_action sd) ''sl'' = dtruthy sd ''sl''"
    "dtruthy (infer_action sd) ''price'' = dtruthy sd ''price''"
    "dget (infer_action sd) ''sl'' = dget sd ''sl''"
    "dget_default (infer_action sd) ''price'' PNone = dget_default sd ''price'' PNone"
    by (simp_all add: dtruthy_def dget_default_def dget_infer_action)
  have c: "dtruthy sd ''sl'' \<or> \<not> dtruthy sd ''price'' \<longrightarrow>
      dget (auto_sl fl (infer_action sd)) ''sl'' = dget sd ''sl''"
    using i by (auto simp: auto_sl_def)
  have d1: "\<not> dtruthy sd ''sl'' \<and> dtruthy sd ''price'' \<longrightarrow>
      (\<forall>entry a.
         py_float (dget_default sd ''price'' PNone) = Inr entry \<and>
         py_upper (dget_default (infer_action sd) ''action'' (PStr ''BUY'')) = Inr a \<longrightarrow>
         dget (auto_sl fl (infer_action sd)) ''sl'' =
           Some (PFloat (fround1 fl
             (if a = ''BUY'' then fsub fl entry (fmul fl entry 0.10)
              else fadd fl entry (fmul fl entry 0.10)))))"
    using i by (auto simp: auto_sl_def ebind_def dget_dset Let_def)
  have d2: "\<not> dtruthy sd ''sl'' \<and> dtruthy sd ''price'' \<longrightarrow>
      ((\<exists>err. py_float (dget_default sd ''price'' PNone) = Inl err) \<or>
       (\<exists>err. py_upper (dget_default (infer_action sd) ''action'' (PStr ''BUY'')) = Inl err) \<longrightarrow>
         dget (auto_sl fl (infer_action sd)) ''sl'' = dget sd ''sl'')"
    using i by (auto simp: auto_sl_def ebind_def dget_dset Let_def split: sum.splits)
  have e: "(dtruthy sd ''action''
       \<or> dget_default sd ''option_type'' PNone \<notin> set [PStr ''CE'', PStr ''PE'']) \<and>
    (dtruthy sd ''sl'' \<or> \<not> dtruthy sd ''price'') \<longrightarrow> auto_sl fl (infer_action sd) = sd"
    by (auto simp: auto_sl_def infer_action_def)
  from a b c d1 d2 e show ?thesis by blast
qed

theorem signal_data_after_prelude_witness:
  "dtruthy buy_signal ''action'' \<and> dtruthy buy_signal ''sl'' \<and>
   auto_sl decimal_ops (infer_action buy_signal) = buy_signal \<and>
   \<not> dtruthy buy_signal_no_sl ''sl'' \<and> dtruthy buy_signal_no_sl ''price'' \<and>
   py_float (dget_default buy_signal_no_sl ''price'' PNone) = Inr 100 \<and>
   dget (auto_sl decimal_ops (infer_action buy_signal_no_sl)) ''sl'' = Some (PFloat 90) \<and>
   dget (auto_sl decimal_ops (infer_action buy_signal_no_sl)) ''tgt'' = Some (PStr ''110.0'')"
proof -
  have h: "dtruthy buy_signal ''action''" "dtruthy buy_signal ''sl''"
    "\<not> dtruthy buy_signal_no_sl ''sl''" "dtruthy buy_signal_no_sl ''price''"
    "dget buy_signal_no_sl ''tgt'' = Some (PStr ''110.0'')"
    "py_float (dget_default buy_signal_no_sl ''price'' PNone) = Inr 100"
    "py_upper (dget_default (infer_action buy_signal_no_sl) ''action'' (PStr ''BUY'')) = Inr ''BUY''"
    by code_simp+
  have v: "fround1 decimal_ops (fsub decimal_ops 100 (fmul decimal_ops 100 0.10)) = 90"
    by (simp add: decimal_ops_def nearest_tenth_def)
  from h
    signal_data_after_prelude [of decimal_ops buy_signal]
    signal_data_after_prelude [of decimal_ops buy_signal_no_sl]
  have "auto_sl decimal_ops (infer_action buy_signal) = buy_signal"
    and "dget (auto_sl decimal_ops (infer_action buy_signal_no_sl)) ''tgt'' = Some (PStr ''110.0'')"
    and "dget (auto_sl decimal_ops (infer_action buy_signal_no_sl)) ''sl'' =
           Some (PFloat (fround1 decimal_ops
             (fsub decimal_ops 100 (fmul decimal_ops 100 0.10))))"
    by simp_all
  with h v show ?thesis by simp
qed

section \<open>Duplicate suppression (C6)\<close>

text \<open>
  C6, as the code has it.  The claim asks that the second of two equal signals
  within the window be rejected as a duplicate whenever the first passed the
  enabled and confidence gates, that is, whenever the first reached
  \<^verbatim>\<open>_is_duplicate\<close>.  A signal that \<^verbatim>\<open>_is_duplicate\<close> itself finds
  to be a duplicate is not recorded, so the window is counted from the last
  recorded signal: with a window of 5 seconds, the signal checked at time 0
  is recorded, the one checked at time 4 is a duplicate, and the one checked
  at time 6, 2 seconds after the second, is not.
\<close>

theorem duplicate_of_unrecorded_signal_accepted:
  "duplicate_window service_after_4 = 5 \<and>
   \<not> fst (is_duplicate 0 ''ch'' buy_signal enabled_service) \<and>
   fst (is_duplicate 4 ''ch'' buy_signal service_after_0) \<and>
   \<not> fst (is_duplicate 6 ''ch'' buy_signal service_after_4)"
  by code_simp

text \<open>
  C6 amended.  Let \<^verbatim>\<open>_is_duplicate\<close> check two signals on the same
  channel one after the other, the two dictionaries it is given having the
  same hash (action, symbol, strike and option type as
  \<^verbatim>\<open>_generate_signal_hash\<close> reads them at the check, the action already
  inferred).  If the first check does not itself answer duplicate (so the
  first signal is recorded) and the second check comes less than the
  duplicate window after the first, the second check answers duplicate (the
  answer that line 192 words 'Duplicate signal').  If the second check comes
  when the window or more has elapsed since the first, and no recorded time
  of the channel lies after the first check, the second check does not answer
  duplicate, whatever the two signals.  A check that answers duplicate records
  nothing: it only purges the entries as old as the window.
\<close>

theorem duplicate_window_suppression:
  "(generate_signal_hash sd1 = generate_signal_hash sd2 \<and>
    \<not> fst (is_duplicate t1 ch sd1 svc) \<and> t2 - t1 < duplicate_window svc
      \<longrightarrow> fst (is_duplicate t2 ch sd2 (snd (is_duplicate t1 ch sd1 svc)))) \<and>
   (duplicate_window svc \<le> t2 - t1 \<and> (\<forall>(h, t) \<in> set (channel_signals svc ch). t \<le> t1)
      \<longrightarrow> \<not> fst (is_duplicate t2 ch sd2 (snd (is_duplicate t1 ch sd1 svc)))) \<and>
   (fst (is_duplicate t1 ch sd1 svc)
      \<longrightarrow> channel_signals (snd (is_duplicate t1 ch sd1 svc)) ch =
            filter (\<lambda>(h, t). t1 - t < duplicate_window svc) (channel_signals svc ch))"
proof (intro conjI impI)
  let ?s1 = "snd (is_duplicate t1 ch sd1 svc)"
  have w: "duplicate_window ?s1 = duplicate_window svc" by (rule is_duplicate_window)
  {
    assume a: "generate_signal_hash sd1 = generate_signal_hash sd2 \<and>
      \<not> fst (is_duplicate t1 ch sd1 svc) \<and> t2 - t1 < duplicate_window svc"
    then have "(generate_signal_hash sd2, t1) \<in> set (channel_signals ?s1 ch)"
      using is_duplicate_recorded [of t1 ch sd1 svc] by simp
    moreover have "t2 - t1 < duplicate_window ?s1" using a w by simp
    ultimately show "fst (is_duplicate t2 ch sd2 ?s1)" by (rule is_duplicate_found)
  }
  {
    assume b: "duplicate_window svc \<le> t2 - t1 \<and>
      (\<forall>(h, t) \<in> set (channel_signals svc ch). t \<le> t1)"
    then have "\<forall>(h, t) \<in> set (channel_signals ?s1 ch). t \<le> t1"
      using is_duplicate_times [of svc ch t1 sd1] by simp
    with b w have "\<forall>(h, t') \<in> set (channel_signals ?s1 ch). duplicate_window ?s1 \<le> t2 - t'"
      by auto
    then show "\<not> fst (is_duplicate t2 ch sd2 ?s1)" by (rule is_duplicate_expired)
  }
  {
    assume "fst (is_duplicate t1 ch sd1 svc)"
    then show "channel_signals ?s1 ch =
            filter (\<lambda>(h, t). t1 - t < duplicate_window svc) (channel_signals svc ch)"
      by (rule is_duplicate_not_recorded)
  }
qed

theorem duplicate_window_suppression_witness:
  "\<not> fst (is_duplicate 0 ''ch'' buy_signal enabled_service) \<and>
   fst (is_duplicate 4 ''ch'' buy_signal service_after_0) \<and>
   \<not> fst (is_duplicate 5 ''ch'' buy_signal service_after_0) \<and>
   channel_signals service_after_4 ''ch'' = [(''BUY|RELIANCE||'', 0)]"
proof -
  have g: "\<not> fst (is_duplicate 0 ''ch'' buy_signal enabled_service)"
    "duplicate_window enabled_service = 5" "channel_signals enabled_service ''ch'' = []"
    "channel_signals service_after_0 ''ch'' = [(''BUY|RELIANCE||'', 0)]"
    "duplicate_window service_after_0 = 5"
    by code_simp+
  have s0: "service_after_0 = snd (is_duplicate 0 ''ch'' buy_signal enabled_service)"
    by (simp add: service_after_0_def)
  have s4: "service_after_4 = snd (is_duplicate 4 ''ch'' buy_signal service_after_0)"
    by (simp add: service_after_4_def)
  from duplicate_window_suppression [of buy_signal buy_signal 0 "''ch''" enabled_service 4] g s0
  have w1: "fst (is_duplicate 4 ''ch'' buy_signal service_after_0)" by simp
  from duplicate_window_suppression [of buy_signal buy_signal 0 "''ch''" enabled_service 5] g s0
  have w2: "\<not> fst (is_duplicate 5 ''ch'' buy_signal service_after_0)" by simp
  from duplicate_window_suppression [of buy_signal buy_signal 4 "''ch''" service_after_0 6] w1 g s4
  have w3: "channel_signals service_after_4 ''ch'' = [(''BUY|RELIANCE||'', 0)]" by simp
  from g w1 w2 w3 show ?thesis by simp
qed

section \<open>The classifier on the end-to-end example (C9)\<close>

lemma dset_dset_same: "dset (dset d k v) k v' = dset d k v'"
  by (induction d) auto

text \<open>The score of the example, part by part: 12 + 0 + 16 + 12 + 0 + 8 + 10 = 58.\<close>

lemma example_anti: "anti_score example_text = 0"
  by code_simp

lemma example_action_score: "keyword_score action_keywords (lower example_text) = 12"
  by code_simp

lemma example_instrument_score: "keyword_score instrument_keywords (lower example_text) = 0"
  by code_simp

lemma example_param_score: "keyword_score param_keywords (lower example_text) = 16"
  by code_simp

lemma example_bonus: "sl_tgt_bonus (lower example_text) = 12"
  by code_simp

lemma example_noise: "noise_score example_text (lower example_text) = 0"
  by code_simp

lemma example_prices: "prices_score example_text = 8"
  by code_simp

lemma example_pattern: "pattern_score example_text = 10"
  by code_simp

lemma example_score: "score_of example_text = 58"
  by (simp add: score_of_def Let_def example_anti example_action_score
        example_instrument_score example_param_score example_bonus example_noise
        example_prices example_pattern)

lemma example_action: "action_found_of (lower example_text) = Some ''BUY''"
  by code_simp

lemma example_symbol_match:
  "search True symbol_pattern example_text =
     Some (''RELIANCE @ 2400 SL 2380 TGT 2450'',
           \<lparr>ms_prev = Some CHR ''E'', ms_rest = '' @ 2400 SL 2380 TGT 2450'',
            ms_caps = [(1, ''RELIANCE'')]\<rparr>)"
  by code_simp

lemma example_symbol_from_pattern:
  "symbol_from_pattern example_text data = dset data ''symbol'' (PStr ''RELIANCE'')"
proof -
  have u: "upper ''RELIANCE'' = ''RELIANCE''" "\<not> contains ''NATURAL'' ''RELIANCE''"
    "\<not> contains ''CRUDE'' ''RELIANCE''"
    "filter (\<lambda>c. c \<noteq> CHR '' '') ''RELIANCE'' = ''RELIANCE''"
    by code_simp+
  show ?thesis
    by (simp add: symbol_from_pattern_def example_symbol_match group_def Let_def u)
qed

lemma symbol_from_words_cases:
  "symbol_from_words vs text data = data \<or>
   (\<exists>w. symbol_from_words vs text data = dset data ''symbol'' (PStr w))"
  by (auto simp: symbol_from_words_def Let_def split: option.splits)

lemma example_symbol:
  "symbol_from_pattern example_text (symbol_from_words vs example_text [(''action'', PStr ''BUY'')])
     = [(''action'', PStr ''BUY''), (''symbol'', PStr ''RELIANCE'')]"
  using symbol_from_words_cases [of vs example_text "[(''action'', PStr ''BUY'')]"]
  by (auto simp: example_symbol_from_pattern dset_dset_same)

lemma example_details:
  "extract_details example_text [(''action'', PStr ''BUY''), (''symbol'', PStr ''RELIANCE'')]
     = example_extracted"
  by code_simp

lemma example_extraction:
  "extract_signal_data vs example_text (Some ''BUY'') = example_extracted"
  by (simp add: extract_signal_data_def example_symbol example_details)

lemma example_meaningful: "dtruthy example_extracted ''action''"
  by code_simp

lemma example_decision: "initial_is_signal 58" "confidence_of 58 = 1"
  by (simp_all add: initial_is_signal_def confidence_of_def)

text \<open>
  C9, as the code has it.  On \<^verbatim>\<open>BUY RELIANCE @ 2400 SL 2380 TGT 2450\<close> the
  classifier (here with an empty symbol table) answers is\_signal = True with
  confidence 1, but the extracted structure is not the one the claim gives:
  it also has \<^verbatim>\<open>strike\<close> = "2400" (the first number of 3 to 6 digits) and
  \<^verbatim>\<open>stop_loss\<close> = "2380", and \<^verbatim>\<open>tgt\<close> is "2450.0", the
  \<^verbatim>\<open>str\<close> of a float, not "2450".
\<close>

theorem example_extraction_differs:
  "classify [] example_text = (True, 1, Some example_extracted) \<and>
   \<not> same_dict example_extracted spec_extracted \<and>
   dget example_extracted ''strike'' = Some (PStr ''2400'') \<and>
   dget spec_extracted ''strike'' = None \<and>
   dget example_extracted ''stop_loss'' = Some (PStr ''2380'') \<and>
   dget spec_extracted ''stop_loss'' = None \<and>
   dget example_extracted ''tgt'' = Some (PStr ''2450.0'') \<and>
   dget spec_extracted ''tgt'' = Some (PStr ''2450'')"
proof -
  have c: "classify [] example_text = (True, 1, Some example_extracted)"
    by (simp add: classify_def example_score example_action example_extraction
          example_meaningful example_decision Let_def)
  have d: "\<not> same_dict example_extracted spec_extracted"
    "dget example_extracted ''strike'' = Some (PStr ''2400'')"
    "dget spec_extracted ''strike'' = None"
    "dget example_extracted ''stop_loss'' = Some (PStr ''2380'')"
    "dget spec_extracted ''stop_loss'' = None"
    "dget example_extracted ''tgt'' = Some (PStr ''2450.0'')"
    "dget spec_extracted ''tgt'' = Some (PStr ''2450'')"
    by code_simp+
  from c d show ?thesis by blast
qed

text \<open>
  C9 amended.  On \<^verbatim>\<open>BUY RELIANCE @ 2400 SL 2380 TGT 2450\<close>, whatever the
  symbol table, \<^verbatim>\<open>classify\<close> returns is\_signal = True, confidence 1 and
  the extracted structure \{action: BUY, symbol: RELIANCE, strike: "2400",
  price: "2400", condition: "@", sl: "2380", stop\_loss: "2380",
  targets: ["2450"], tgt: "2450.0"\}, and no other field.
\<close>

theorem example_classification:
  "classify valid_symbols example_text = (True, 1, Some example_extracted)"
  by (simp add: classify_def example_score example_action example_extraction
        example_meaningful example_decision Let_def)

section \<open>The confidence conjunct (C10)\<close>

lemma score_threshold: "initial_is_signal score = (score \<ge> 20)"
proof (cases "score \<ge> 20")
  case True
  then have "(20::real) \<le> of_int score" by linarith
  then have "(1/2::real) \<le> of_int score / 35" by simp
  then have "confidence_of score \<ge> 0.5" by (simp add: confidence_of_def)
  with True show ?thesis by (simp add: initial_is_signal_def)
next
  case False
  then show ?thesis by (simp add: initial_is_signal_def)
qed

text \<open>
  C10.  In \<^verbatim>\<open>is_signal = score >= 20 and confidence >= 0.5\<close> the second
  conjunct adds nothing: a score of at least 20 gives a confidence of at
  least 20/35, so for every integer score, and so for the score of every
  text, the decision taken before the quality gate holds exactly when the
  score is at least 20.
\<close>

theorem initial_decision_is_score_threshold:
  "initial_is_signal score = (score \<ge> 20) \<and>
   initial_is_signal (score_of text) = (score_of text \<ge> 20) \<and>
   confidence_of 20 = 4 / 7"
  by (simp add: score_threshold) (simp add: confidence_of_def)

end
